theory Spec2Isabelle
  imports Main "HOL-Library.Sublist"
begin

section \<open>JavaScript strings and truthiness\<close>

text \<open>
  A string is the list of the bytes of its UTF-8 encoding, the form in which the
  program reads and writes its files: an ASCII character is one byte below 128, every
  other code point is a lead byte from 192 followed by one to three continuation bytes
  (128 to 191). \<open>String.prototype.includes\<close> is substring search.

  \<open>toLowerCase\<close>: the ASCII capitals are lowered; U+212A (Kelvin sign, bytes E2 84 AA)
  becomes \<open>k\<close>, and U+0130 (bytes C4 B0) becomes \<open>i\<close> followed by U+0307 (bytes CC 87).
  These are the only code points beyond ASCII whose lower case holds an ASCII
  character. Every other code point beyond ASCII is left as it is: its lower case is
  again beyond ASCII, and the program only searches the lowered string for ASCII text,
  compares it with ASCII text, or removes from it what is not ASCII.
\<close>

definition toLowerChar :: "char \<Rightarrow> char" where
  "toLowerChar c =
     (let n = (of_char c :: nat) in if 65 \<le> n \<and> n \<le> 90 then char_of (n + 32) else c)"

fun toLowerCase :: "string \<Rightarrow> string" where
  "toLowerCase [] = []"
| "toLowerCase (c # s) =
     (if prefix [CHR 0xE2, CHR 0x84, CHR 0xAA] (c # s) then CHR ''k'' # toLowerCase (drop 2 s)
      else if prefix [CHR 0xC4, CHR 0xB0] (c # s)
      then CHR ''i'' # CHR 0xCC # CHR 0x87 # toLowerCase (drop 1 s)
      else toLowerChar c # toLowerCase s)"

fun str_includes :: "string \<Rightarrow> string \<Rightarrow> bool" where
  "str_includes [] p = (p = [])"
| "str_includes (c # s) p = (prefix p (c # s) \<or> str_includes s p)"

section \<open>RetryManager (utils/RetryManager.ts)\<close>

record RetryConfig =
  maxAttempts :: nat
  delays :: "int list"

text \<open>\<open>Partial<RetryConfig>\<close>: every field may be absent.\<close>

record PartialRetryConfig =
  maxAttempts_opt :: "nat option"
  delays_opt :: "int list option"

definition DEFAULT_CONFIG :: RetryConfig where
  "DEFAULT_CONFIG = \<lparr>maxAttempts = 3, delays = [0, 30000, 120000]\<rparr>"

definition emptyConfig :: PartialRetryConfig where
  "emptyConfig = \<lparr>maxAttempts_opt = None, delays_opt = None\<rparr>"

text \<open>\<open>{ ...DEFAULT_CONFIG, ...config }\<close>\<close>

definition finalConfig :: "PartialRetryConfig \<Rightarrow> RetryConfig" where
  "finalConfig config =
     \<lparr>maxAttempts = (case maxAttempts_opt config of Some m \<Rightarrow> m | None \<Rightarrow> maxAttempts DEFAULT_CONFIG),
      delays = (case delays_opt config of Some d \<Rightarrow> d | None \<Rightarrow> delays DEFAULT_CONFIG)\<rparr>"

text \<open>Array indexing: out of range reads \<open>undefined\<close> (here \<open>None\<close>).\<close>

definition jsIndex :: "'a list \<Rightarrow> int \<Rightarrow> 'a option" where
  "jsIndex xs i = (if 0 \<le> i \<and> i < int (length xs) then Some (xs ! nat i) else None)"

text \<open>
  \<open>finalConfig.delays[attempt - 1] || finalConfig.delays[finalConfig.delays.length - 1]\<close>:
  the left operand is falsy when it is \<open>undefined\<close> or \<open>0\<close>.
\<close>

definition retryDelay :: "int list \<Rightarrow> nat \<Rightarrow> int option" where
  "retryDelay ds attempt =
     (case jsIndex ds (int attempt - 1) of
        Some d \<Rightarrow> if d \<noteq> 0 then Some d else jsIndex ds (int (length ds) - 1)
      | None \<Rightarrow> jsIndex ds (int (length ds) - 1))"

definition isRetryableError :: "string \<Rightarrow> bool" where
  "isRetryableError errorMessage =
     (let message = toLowerCase errorMessage in
      if str_includes message ''network'' \<or> str_includes message ''timeout'' \<or>
         str_includes message ''connection'' \<or> str_includes message ''econnreset'' \<or>
         str_includes message ''enotfound'' then True
      else if str_includes message ''rate limit'' \<or> str_includes message ''too many requests'' \<or>
         str_includes message ''429'' then True
      else if str_includes message ''500'' \<or> str_includes message ''502'' \<or>
         str_includes message ''503'' \<or> str_includes message ''504'' \<or>
         str_includes message ''internal server error'' \<or> str_includes message ''bad gateway'' \<or>
         str_includes message ''service unavailable'' \<or> str_includes message ''gateway timeout'' then True
      else if str_includes message ''unauthorized'' \<or> str_includes message ''forbidden'' \<or>
         str_includes message ''invalid api key'' \<or> str_includes message ''401'' \<or>
         str_includes message ''403'' then False
      else if str_includes message ''validation'' \<or> str_includes message ''invalid'' \<or>
         str_includes message ''bad request'' \<or> str_includes message ''400'' then False
      else if str_includes message ''enoent'' \<or> str_includes message ''permission denied'' \<or>
         str_includes message ''eacces'' then False
      else True)"

text \<open>
  What \<open>withRetry\<close> throws: an \<open>Error\<close> with a message, or \<open>undefined\<close> (the final
  \<open>throw lastError!\<close> when the loop body never ran).
\<close>

datatype thrown = Error string | ThrownUndefined

text \<open>
  The operation is a state transformer on the world \<open>'s\<close>; it returns \<open>Inl message\<close>
  when it throws. A run of \<open>withRetry\<close> yields the outcome, the world afterwards, the
  delays passed to \<open>sleep\<close> in order, and the number of invocations of the operation.
\<close>

type_synonym ('a, 's) operation = "'s \<Rightarrow> (string + 'a) \<times> 's"

type_synonym ('a, 's) retry_run = "(thrown + 'a) \<times> 's \<times> int option list \<times> nat"

function retryLoop ::
  "RetryConfig \<Rightarrow> ('a, 's) operation \<Rightarrow> nat \<Rightarrow> 's \<Rightarrow> int option list \<Rightarrow> nat \<Rightarrow> ('a, 's) retry_run"
where
  "retryLoop cfg operation attempt s slept invoked =
     (if attempt < maxAttempts cfg then
        (let slept' = (if attempt > 0 then slept @ [retryDelay (delays cfg) attempt] else slept) in
         case operation s of
           (Inr result, s') \<Rightarrow> (Inr result, s', slept', Suc invoked)
         | (Inl lastError, s') \<Rightarrow>
             if \<not> isRetryableError lastError then (Inl (Error lastError), s', slept', Suc invoked)
             else if attempt = maxAttempts cfg - 1 then (Inl (Error lastError), s', slept', Suc invoked)
             else retryLoop cfg operation (attempt + 1) s' slept' (Suc invoked))
      else (Inl ThrownUndefined, s, slept, invoked))"
  by pat_completeness auto
termination
  by (relation "measure (\<lambda>(cfg, operation, attempt, s, slept, invoked). maxAttempts cfg - attempt)") auto

declare retryLoop.simps [simp del]

definition withRetry :: "('a, 's) operation \<Rightarrow> PartialRetryConfig \<Rightarrow> 's \<Rightarrow> ('a, 's) retry_run" where
  "withRetry operation config s = retryLoop (finalConfig config) operation 0 s [] 0"

text \<open>
  The substrings \<open>isRetryableError\<close> looks for, in its order: the three retryable
  groups (network, rate limiting, server errors), then the three fatal groups
  (authentication, validation, file system).
\<close>

definition retryablePatterns :: "string list" where
  "retryablePatterns =
     [''network'', ''timeout'', ''connection'', ''econnreset'', ''enotfound'',
      ''rate limit'', ''too many requests'', ''429'',
      ''500'', ''502'', ''503'', ''504'', ''internal server error'', ''bad gateway'',
      ''service unavailable'', ''gateway timeout'']"

definition fatalPatterns :: "string list" where
  "fatalPatterns =
     [''unauthorized'', ''forbidden'', ''invalid api key'', ''401'', ''403'',
      ''validation'', ''invalid'', ''bad request'', ''400'',
      ''enoent'', ''permission denied'', ''eacces'']"

section \<open>More string functions\<close>

abbreviation nl :: string where
  "nl \<equiv> [CHR 0x0A]"

definition endsWith :: "string \<Rightarrow> string \<Rightarrow> bool" where
  "endsWith s suf = suffix suf s"

definition startsWith :: "string \<Rightarrow> string \<Rightarrow> bool" where
  "startsWith s pre = prefix pre s"

text \<open>
  The code points of a string: a lead byte with the continuation bytes that follow it,
  as many as the lead byte announces; any other byte on its own.
\<close>

definition isContinuation :: "char \<Rightarrow> bool" where
  "isContinuation c = (let n = (of_char c :: nat) in 128 \<le> n \<and> n < 192)"

definition sequenceLength :: "char \<Rightarrow> nat" where
  "sequenceLength c =
     (let n = (of_char c :: nat) in
      if n < 192 then 1 else if n < 224 then 2 else if n < 240 then 3 else 4)"

fun codePoints :: "string \<Rightarrow> string list" where
  "codePoints [] = []"
| "codePoints (c # s) =
     (let k = length (takeWhile isContinuation (take (sequenceLength c - 1) s))
      in (c # take k s) # codePoints (drop k s))"

text \<open>
  White space of \<open>trim\<close> and of the regular expression class \<open>\s\<close>: the code points
  U+0009 to U+000D, U+0020, U+00A0, U+1680, U+2000 to U+200A, U+2028, U+2029, U+202F,
  U+205F, U+3000 and U+FEFF, each in its encoding.
\<close>

definition whiteSpace :: "string list" where
  "whiteSpace =
     [[CHR 0x09], [CHR 0x0A], [CHR 0x0B], [CHR 0x0C], [CHR 0x0D], [CHR 0x20],
      [CHR 0xC2, CHR 0xA0],
      [CHR 0xE1, CHR 0x9A, CHR 0x80],
      [CHR 0xE2, CHR 0x80, CHR 0x80], [CHR 0xE2, CHR 0x80, CHR 0x81],
      [CHR 0xE2, CHR 0x80, CHR 0x82], [CHR 0xE2, CHR 0x80, CHR 0x83],
      [CHR 0xE2, CHR 0x80, CHR 0x84], [CHR 0xE2, CHR 0x80, CHR 0x85],
      [CHR 0xE2, CHR 0x80, CHR 0x86], [CHR 0xE2, CHR 0x80, CHR 0x87],
      [CHR 0xE2, CHR 0x80, CHR 0x88], [CHR 0xE2, CHR 0x80, CHR 0x89],
      [CHR 0xE2, CHR 0x80, CHR 0x8A],
      [CHR 0xE2, CHR 0x80, CHR 0xA8], [CHR 0xE2, CHR 0x80, CHR 0xA9],
      [CHR 0xE2, CHR 0x80, CHR 0xAF],
      [CHR 0xE2, CHR 0x81, CHR 0x9F],
      [CHR 0xE3, CHR 0x80, CHR 0x80],
      [CHR 0xEF, CHR 0xBB, CHR 0xBF]]"

definition isSpace :: "string \<Rightarrow> bool" where
  "isSpace u = (u \<in> set whiteSpace)"

definition isUpper :: "char \<Rightarrow> bool" where
  "isUpper c = (let n = (of_char c :: nat) in 65 \<le> n \<and> n \<le> 90)"

definition isLower :: "char \<Rightarrow> bool" where
  "isLower c = (let n = (of_char c :: nat) in 97 \<le> n \<and> n \<le> 122)"

definition isDigit :: "char \<Rightarrow> bool" where
  "isDigit c = (let n = (of_char c :: nat) in 48 \<le> n \<and> n \<le> 57)"

text \<open>The class \<open>\w\<close>.\<close>

definition isWordChar :: "char \<Rightarrow> bool" where
  "isWordChar c = (isUpper c \<or> isLower c \<or> isDigit c \<or> c = CHR ''_'')"

definition toUpperChar :: "char \<Rightarrow> char" where
  "toUpperChar c = (if isLower c then char_of ((of_char c :: nat) - 32) else c)"

text \<open>\<open>s.trim()\<close>: the string without its leading and trailing white space.\<close>

definition trim :: "string \<Rightarrow> string" where
  "trim s = concat (rev (dropWhile isSpace (rev (dropWhile isSpace (codePoints s)))))"

text \<open>
  \<open>s.split(sep)\<close> for a non-empty separator: the pieces between the occurrences of
  \<open>sep\<close>, found left to right without overlap. (The program only splits on constant,
  non-empty separators; an empty one is not modelled and yields the whole string.)
\<close>

fun splitAux :: "string \<Rightarrow> string \<Rightarrow> string \<Rightarrow> string list" where
  "splitAux sep cur [] = [rev cur]"
| "splitAux sep cur (c # s) =
     (if sep \<noteq> [] \<and> prefix sep (c # s)
      then rev cur # splitAux sep [] (drop (length sep - 1) s)
      else splitAux sep (c # cur) s)"

definition split :: "string \<Rightarrow> string \<Rightarrow> string list" where
  "split s sep = splitAux sep [] s"

text \<open>\<open>errors.join(', ')\<close>\<close>

fun join :: "string list \<Rightarrow> string \<Rightarrow> string" where
  "join [] sep = []"
| "join [x] sep = x"
| "join (x # y # xs) sep = x @ sep @ join (y # xs) sep"

text \<open>\<open>s.replace(pat, rep)\<close> with a string pattern: the first occurrence only.\<close>

fun replaceFirst :: "string \<Rightarrow> string \<Rightarrow> string \<Rightarrow> string" where
  "replaceFirst [] pat rep = (if pat = [] then rep else [])"
| "replaceFirst (c # s) pat rep =
     (if prefix pat (c # s) then rep @ drop (length pat) (c # s)
      else c # replaceFirst s pat rep)"

text \<open>Decimal rendering of a number in a template string.\<close>

fun showNat :: "nat \<Rightarrow> string" where
  "showNat n = (if n < 10 then [char_of (48 + n)] else showNat (n div 10) @ [char_of (48 + n mod 10)])"

section \<open>Data model (types/index.ts)\<close>

text \<open>
  A field that is absent in the parsed YAML is the empty string here: the program only
  tests such fields for truthiness, and \<open>undefined\<close> and \<open>''\<close> are both falsy.
\<close>

record TicketMetadata =
  linear_id :: string
  title :: string
  status :: string
  assignee :: "string option"
  labels :: "string list"
  priority :: nat
  due_date :: "string option"
  url :: string
  created_at :: string
  updated_at :: string

record Comment =
  comment_id :: string
  author :: string
  comment_content :: string
  comment_created_at :: string

record TicketFile =
  frontmatter :: TicketMetadata
  ticket_content :: string
  comments :: "Comment list"

record StatusMapping =
  mapping_id :: string
  mapping_folder :: string

text \<open>
  \<open>statusMapping: Record<string, StatusMapping>\<close>, as the list \<open>Object.entries\<close> iterates.
  The other fields of \<open>LinearSyncConfig\<close> are not read by the synchronisation code.
\<close>

record LinearSyncConfig =
  teamId :: string
  statusMapping :: "(string \<times> StatusMapping) list"

text \<open>The fields of a Linear issue that the \<open>GetIssue\<close> query returns and the code reads.\<close>

record IssueComment =
  node_id :: string
  node_body :: "string option"
  node_createdAt :: string
  node_user_email :: "string option"
  node_user_name :: "string option"

record Issue =
  issue_id :: string
  issue_identifier :: string
  issue_title :: string
  description :: "string option"
  issue_url :: string
  issue_priority :: nat
  createdAt :: string
  updatedAt :: string
  dueDate :: "string option"
  label_names :: "string list"
  assignee_email :: "string option"
  parent_identifier :: "string option"
  state_id :: string
  state_name :: string
  comment_nodes :: "IssueComment list"

text \<open>The \<open>updates\<close> object of a push: a key is present when its field is \<open>Some\<close>.\<close>

record IssueUpdate =
  upd_stateId :: "string option"
  upd_title :: "string option"
  upd_description :: "string option"

section \<open>The platform: libraries, clock and remote client\<close>

text \<open>
  The program calls gray-matter (\<open>matter\<close>), js-yaml (\<open>yaml.load\<close>, \<open>yaml.dump\<close>) and the
  JavaScript \<open>Date\<close>; they are parameters of the model. \<open>Inl\<close> is a thrown error with its
  message. \<open>yamlLoad\<close> is \<open>None\<close> when \<open>yaml.load\<close> throws or returns something that is
  not an array (the code maps both to the empty comment list). \<open>dateParse\<close> is the time
  value of \<open>new Date(s)\<close> in milliseconds, \<open>None\<close> for an invalid date. \<open>toISOString\<close>
  is the method's result on the \<open>Date\<close> of a time value; the model applies it to the time
  values a \<open>Date\<close> can hold only (on an invalid date the method throws). The world
  outside the local tree (remote service and clock) is a value of type \<open>'r\<close>;
  \<open>currentTime\<close> reads its clock.
\<close>

record 'r platform =
  matter :: "string \<Rightarrow> string + TicketMetadata \<times> string"
  yamlLoad :: "string \<Rightarrow> Comment list option"
  yamlDumpFrontmatter :: "TicketMetadata \<Rightarrow> string + string"
  yamlDumpComments :: "Comment list \<Rightarrow> string + string"
  dateParse :: "string \<Rightarrow> int option"
  toISOString :: "int \<Rightarrow> string"
  currentTime :: "'r \<Rightarrow> int"

text \<open>
  \<open>LinearSyncClient\<close>, the \<open>client\<close> argument of the synchronisation functions: its two
  methods used there, as transformers of the outside world.
\<close>

record 'r LinearSyncClient =
  getIssue :: "string \<Rightarrow> 'r \<Rightarrow> (string + Issue) \<times> 'r"
  updateIssue :: "string \<Rightarrow> IssueUpdate \<Rightarrow> 'r \<Rightarrow> (string + unit) \<times> 'r"

section \<open>The local tree\<close>

text \<open>
  The directory \<open>linear-tickets\<close>: its status folders and their files, each in the order
  \<open>readdirSync\<close> lists them. A path is a folder name and a file name. A missing
  \<open>linear-tickets\<close> directory is the empty tree (the searches return nothing in both
  cases, and \<open>mkdirSync\<close> with \<open>recursive\<close> creates what is missing).
\<close>

record fileEntry =
  file_content :: string
  file_mtime :: int

type_synonym folder = "(string \<times> fileEntry) list"
type_synonym tree = "(string \<times> folder) list"
type_synonym path = "string \<times> string"

definition lookupFile :: "tree \<Rightarrow> path \<Rightarrow> fileEntry option" where
  "lookupFile t p = (case map_of t (fst p) of None \<Rightarrow> None | Some fs \<Rightarrow> map_of fs (snd p))"

definition readFileSync :: "tree \<Rightarrow> path \<Rightarrow> string + string" where
  "readFileSync t p =
     (case lookupFile t p of
        None \<Rightarrow> Inl ''ENOENT: no such file or directory''
      | Some f \<Rightarrow> Inr (file_content f))"

text \<open>Writing replaces an entry in place; a new entry is listed last.\<close>

fun putEntry :: "'k \<Rightarrow> 'v \<Rightarrow> ('k \<times> 'v) list \<Rightarrow> ('k \<times> 'v) list" where
  "putEntry k v [] = [(k, v)]"
| "putEntry k v ((k', v') # es) = (if k' = k then (k, v) # es else (k', v') # putEntry k v es)"

definition removeEntry :: "'k \<Rightarrow> ('k \<times> 'v) list \<Rightarrow> ('k \<times> 'v) list" where
  "removeEntry k es = filter (\<lambda>e. fst e \<noteq> k) es"

definition writeFileSync :: "tree \<Rightarrow> path \<Rightarrow> string \<Rightarrow> int \<Rightarrow> string + tree" where
  "writeFileSync t p c now =
     (case map_of t (fst p) of
        None \<Rightarrow> Inl ''ENOENT: no such file or directory''
      | Some fs \<Rightarrow>
          Inr (putEntry (fst p) (putEntry (snd p) \<lparr>file_content = c, file_mtime = now\<rparr> fs) t))"

definition unlinkSync :: "tree \<Rightarrow> path \<Rightarrow> string + tree" where
  "unlinkSync t p =
     (case lookupFile t p of
        None \<Rightarrow> Inl ''ENOENT: no such file or directory''
      | Some f \<Rightarrow> Inr (map (\<lambda>(d, fs). if d = fst p then (d, removeEntry (snd p) fs) else (d, fs)) t))"

text \<open>\<open>if (!fs.existsSync(dir)) fs.mkdirSync(dir, { recursive: true })\<close>\<close>

definition ensureDir :: "tree \<Rightarrow> string \<Rightarrow> tree" where
  "ensureDir t d = (case map_of t d of None \<Rightarrow> t @ [(d, [])] | Some fs \<Rightarrow> t)"

section \<open>TicketFileParser and TimezoneUtils (parsers/index.ts)\<close>

definition COMMENTS_SEPARATOR :: string where
  "COMMENTS_SEPARATOR = ''---comments---''"

definition parseFile :: "'r platform \<Rightarrow> string \<Rightarrow> string + TicketFile" where
  "parseFile pf content =
     (case matter pf content of
        Inl e \<Rightarrow> Inl (''Failed to parse ticket file: '' @ e)
      | Inr (fm, body) \<Rightarrow>
          (case split body (nl @ COMMENTS_SEPARATOR @ nl) of
             [] \<Rightarrow> Inl ''Failed to parse ticket file: Cannot read properties of undefined''
           | part0 # rest \<Rightarrow>
               Inr \<lparr>frontmatter = fm,
                    ticket_content = trim part0,
                    comments =
                      (case rest of
                         [] \<Rightarrow> []
                       | part1 # _ \<Rightarrow>
                           if trim part1 \<noteq> [] then
                             (case yamlLoad pf (trim part1) of Some cs \<Rightarrow> cs | None \<Rightarrow> [])
                           else [])\<rparr>))"

text \<open>
  \<open>generateFile\<close> calls \<open>validateFrontmatter\<close> and drops the list it returns, so an
  invalid frontmatter does not stop it. A failing dump of the comments is caught and
  leaves the separator without a body.
\<close>

definition generateFile :: "'r platform \<Rightarrow> TicketFile \<Rightarrow> string + string" where
  "generateFile pf ticket =
     (case yamlDumpFrontmatter pf (frontmatter ticket) of
        Inl e \<Rightarrow> Inl (''Failed to generate ticket file: '' @ e)
      | Inr frontmatterYaml \<Rightarrow>
          (let content = ''---'' @ nl @ frontmatterYaml @ ''---'' @ nl @ nl @ ticket_content ticket in
           if comments ticket \<noteq> [] then
             (let content' = content @ nl @ nl @ COMMENTS_SEPARATOR @ nl in
              case yamlDumpComments pf (comments ticket) of
                Inl e \<Rightarrow> Inr content'
              | Inr commentsYaml \<Rightarrow> Inr (content' @ commentsYaml))
           else Inr content))"

text \<open>
  \<open>title.toLowerCase().replace(/[^a-z0-9\s-]/g, '').replace(/\s+/g, '-')
  .replace(/-+/g, '-').replace(/^-|-$/g, '').substring(0, 50)\<close>
\<close>

function collapseRuns :: "('a \<Rightarrow> bool) \<Rightarrow> 'a \<Rightarrow> 'a list \<Rightarrow> 'a list" where
  "collapseRuns P r [] = []"
| "collapseRuns P r (c # s) =
     (if P c then r # collapseRuns P r (dropWhile P s) else c # collapseRuns P r s)"
  by pat_completeness auto
termination
  by (relation "measure (\<lambda>(P, r, s). length s)") (auto simp: le_imp_less_Suc length_dropWhile_le)

definition stripEdgeHyphens :: "string \<Rightarrow> string" where
  "stripEdgeHyphens s =
     (let s1 = (case s of [] \<Rightarrow> [] | c # r \<Rightarrow> if c = CHR ''-'' then r else s)
      in if s1 \<noteq> [] \<and> last s1 = CHR ''-'' then butlast s1 else s1)"

text \<open>The characters the first replacement keeps: \<open>a\<close> to \<open>z\<close>, digits, white space, hyphen.\<close>

definition isTitleChar :: "string \<Rightarrow> bool" where
  "isTitleChar u =
     (isSpace u \<or> (case u of [c] \<Rightarrow> isLower c \<or> isDigit c \<or> c = CHR ''-'' | _ \<Rightarrow> False))"

definition sanitizeTitle :: "string \<Rightarrow> string" where
  "sanitizeTitle t =
     take 50 (stripEdgeHyphens (collapseRuns (\<lambda>c. c = CHR ''-'') (CHR ''-'')
       (concat (collapseRuns isSpace ''-'' (filter isTitleChar (codePoints (toLowerCase t)))))))"

text \<open>\<open>linearId.split('-')[1]\<close> inside a template string: a missing piece prints as \<open>undefined\<close>.\<close>

definition childNumber :: "string \<Rightarrow> string" where
  "childNumber linearId =
     (case split linearId ''-'' of (_ # n # _) \<Rightarrow> n | _ \<Rightarrow> ''undefined'')"

definition generateFilename :: "string \<Rightarrow> string \<Rightarrow> string option \<Rightarrow> string" where
  "generateFilename linearId ttl parentId =
     (case parentId of
        Some pid \<Rightarrow>
          if pid \<noteq> [] then pid @ ''.'' @ childNumber linearId @ ''-'' @ sanitizeTitle ttl @ ''.md''
          else linearId @ ''-'' @ sanitizeTitle ttl @ ''.md''
      | None \<Rightarrow> linearId @ ''-'' @ sanitizeTitle ttl @ ''.md'')"

text \<open>
  The match of \<open>/^(?:([A-Z]+-\d+)\.(\d+)|([A-Z]+-\d+))/\<close>: for \<open>PAP-434.447-x.md\<close> the
  child id \<open>PAP-447\<close>, for \<open>PAP-431-x.md\<close> the id \<open>PAP-431\<close>.
\<close>

definition extractLinearIdFromFilename :: "string \<Rightarrow> string option" where
  "extractLinearIdFromFilename filename =
     (let letters = takeWhile isUpper filename in
      if letters = [] then None
      else
        (case dropWhile isUpper filename of
           [] \<Rightarrow> None
         | c # r \<Rightarrow>
             if c \<noteq> CHR ''-'' then None
             else
               (let digits = takeWhile isDigit r in
                if digits = [] then None
                else
                  (case dropWhile isDigit r of
                     [] \<Rightarrow> Some (letters @ ''-'' @ digits)
                   | c' # r' \<Rightarrow>
                       if c' = CHR ''.'' \<and> takeWhile isDigit r' \<noteq> []
                       then Some (letters @ ''-'' @ takeWhile isDigit r')
                       else Some (letters @ ''-'' @ digits)))))"

definition isValidISODate :: "'r platform \<Rightarrow> string \<Rightarrow> bool" where
  "isValidISODate pf dateString = (dateParse pf dateString \<noteq> None \<and> str_includes dateString ''T'')"

text \<open>The labels are an array by their type here, so that check of the source cannot fail.\<close>

definition validateFrontmatter :: "'r platform \<Rightarrow> TicketMetadata \<Rightarrow> string list" where
  "validateFrontmatter pf fm =
     (if linear_id fm = [] then [''Missing linear_id''] else []) @
     (if status fm = [] then [''Missing status''] else []) @
     (if url fm = [] then [''Missing url''] else []) @
     (if created_at fm = [] then [''Missing created_at''] else []) @
     (if updated_at fm = [] then [''Missing updated_at''] else []) @
     (if priority fm \<noteq> 0 \<and> priority fm \<notin> set [1, 2, 3, 4]
      then [''Priority must be 1, 2, 3, or 4''] else []) @
     (if created_at fm \<noteq> [] \<and> \<not> isValidISODate pf (created_at fm)
      then [''created_at must be valid ISO date string''] else []) @
     (if updated_at fm \<noteq> [] \<and> \<not> isValidISODate pf (updated_at fm)
      then [''updated_at must be valid ISO date string''] else []) @
     (case due_date fm of
        None \<Rightarrow> []
      | Some d \<Rightarrow> if d \<noteq> [] \<and> \<not> isValidISODate pf d
                  then [''due_date must be valid ISO date string''] else [])"

fun commentErrors :: "nat \<Rightarrow> Comment list \<Rightarrow> string list" where
  "commentErrors i [] = []"
| "commentErrors i (c # cs) =
     (if comment_id c = [] then [''Comment '' @ showNat (i + 1) @ '' missing id''] else []) @
     (if author c = [] then [''Comment '' @ showNat (i + 1) @ '' missing author''] else []) @
     (if comment_content c = [] then [''Comment '' @ showNat (i + 1) @ '' missing content''] else []) @
     (if comment_created_at c = [] then [''Comment '' @ showNat (i + 1) @ '' missing created_at''] else []) @
     commentErrors (i + 1) cs"

text \<open>\<open>validateFile\<close>: the list \<open>errors\<close>; the file is valid when it is empty.\<close>

definition validateFile :: "'r platform \<Rightarrow> string \<Rightarrow> string list" where
  "validateFile pf content =
     (case parseFile pf content of
        Inl e \<Rightarrow> [''Parse error: '' @ e]
      | Inr ticket \<Rightarrow>
          validateFrontmatter pf (frontmatter ticket) @
          (if ticket_content ticket = [] \<or> trim (ticket_content ticket) = []
           then [''Content section is empty'' ] else []) @
          commentErrors 0 (comments ticket))"

text \<open>
  The time values a \<open>Date\<close> can hold: at most 8.64e15 ms from the epoch. A \<open>Date\<close> made
  from any other number is invalid.
\<close>

definition validTime :: "int \<Rightarrow> bool" where
  "validTime t = (- 8640000000000000 \<le> t \<and> t \<le> 8640000000000000)"

text \<open>
  \<open>utcToSGT\<close>: \<open>toISOString\<close> of an invalid date throws a \<open>RangeError\<close>. The date is
  invalid when the string does not parse (its time value is \<open>NaN\<close>, and so is the sum)
  and when the time value moved by eight hours leaves the range of \<open>Date\<close>.
\<close>

definition utcToSGT :: "'r platform \<Rightarrow> string \<Rightarrow> string + string" where
  "utcToSGT pf utcDateString =
     (case dateParse pf utcDateString of
        None \<Rightarrow> Inl ''Invalid time value''
      | Some t \<Rightarrow>
          if validTime (t + 8 * 60 * 60 * 1000)
          then Inr (replaceFirst (toISOString pf (t + 8 * 60 * 60 * 1000)) ''Z'' ''+08:00'')
          else Inl ''Invalid time value'')"

text \<open>\<open>now\<close>: the clock's time is a valid time value, so \<open>new Date().toISOString()\<close> returns.\<close>

definition TimezoneUtils_now :: "'r platform \<Rightarrow> 'r \<Rightarrow> string + string" where
  "TimezoneUtils_now pf r = utcToSGT pf (toISOString pf (currentTime pf r))"

section \<open>Push and pull (cli/sync.ts)\<close>

text \<open>
  The state the synchronisation acts on: the local tree, the outside world, and the log
  of the \<open>client.updateIssue\<close> calls made so far (issue id and \<open>updates\<close> object), kept to
  count remote writes.
\<close>

record 'r world =
  tree :: tree
  env :: 'r
  updateCalls :: "(string \<times> IssueUpdate) list"

definition isTicketFileOf :: "string \<Rightarrow> string \<Rightarrow> bool" where
  "isTicketFileOf ticketId fname =
     (endsWith fname ''.md'' \<and>
      (case extractLinearIdFromFilename fname of
         None \<Rightarrow> False
       | Some extractedId \<Rightarrow> extractedId \<noteq> [] \<and> toLowerCase extractedId = toLowerCase ticketId))"

fun findTicketFile :: "tree \<Rightarrow> string \<Rightarrow> path option" where
  "findTicketFile [] ticketId = None"
| "findTicketFile ((folder, files) # rest) ticketId =
     (case find (isTicketFileOf ticketId) (map fst files) of
        Some fname \<Rightarrow> Some (folder, fname)
      | None \<Rightarrow> findTicketFile rest ticketId)"


fun findStateIdForFolder :: "string \<Rightarrow> (string \<times> StatusMapping) list \<Rightarrow> string option" where
  "findStateIdForFolder folder [] = None"
| "findStateIdForFolder folder ((stateName, mapping) # rest) =
     (if mapping_folder mapping = folder then Some (mapping_id mapping)
      else findStateIdForFolder folder rest)"

fun findStatusFolder :: "string \<Rightarrow> (string \<times> StatusMapping) list \<Rightarrow> string option" where
  "findStatusFolder stateName [] = None"
| "findStatusFolder stateName ((configStateName, mapping) # rest) =
     (if configStateName = stateName then Some (mapping_folder mapping)
      else findStatusFolder stateName rest)"

text \<open>\<open>.replace(/\b\w/g, char => char.toUpperCase())\<close>: a word character is upper-cased
  when no word character precedes it.\<close>

fun titleCase :: "bool \<Rightarrow> string \<Rightarrow> string" where
  "titleCase prevWord [] = []"
| "titleCase prevWord (c # s) =
     (if isWordChar c \<and> \<not> prevWord then toUpperChar c else c) # titleCase (isWordChar c) s"

definition extractTitleFromFilename :: "string \<Rightarrow> string \<Rightarrow> string option" where
  "extractTitleFromFilename filename linearId =
     (let pre = linearId @ ''-'' in
      if \<not> startsWith filename pre then None
      else
        (let ttl = titleCase False
                     (map (\<lambda>c. if c = CHR ''-'' then CHR '' '' else c) (drop (length pre) filename))
         in if ttl = [] then None else Some ttl))"

text \<open>\<open>path.basename(filePath, '.md')\<close>\<close>

definition basenameMd :: "string \<Rightarrow> string" where
  "basenameMd fname =
     (if endsWith fname ''.md'' \<and> fname \<noteq> ''.md'' then take (length fname - 3) fname else fname)"

fun convertComments :: "'r platform \<Rightarrow> IssueComment list \<Rightarrow> string + Comment list" where
  "convertComments pf [] = Inr []"
| "convertComments pf (c # cs) =
     (case utcToSGT pf (node_createdAt c) of
        Inl e \<Rightarrow> Inl e
      | Inr at \<Rightarrow>
          (case convertComments pf cs of
             Inl e \<Rightarrow> Inl e
           | Inr rest \<Rightarrow>
               Inr (\<lparr>comment_id = node_id c,
                     author =
                       (case node_user_email c of
                          Some m \<Rightarrow> if m \<noteq> [] then m
                                     else (case node_user_name c of
                                             Some n \<Rightarrow> if n \<noteq> [] then n else ''Unknown''
                                           | None \<Rightarrow> ''Unknown'')
                        | None \<Rightarrow> (case node_user_name c of
                                     Some n \<Rightarrow> if n \<noteq> [] then n else ''Unknown''
                                   | None \<Rightarrow> ''Unknown'')),
                     comment_content = (case node_body c of Some b \<Rightarrow> b | None \<Rightarrow> []),
                     comment_created_at = at\<rparr> # rest)))"

definition convertLinearIssueToTicket ::
  "'r platform \<Rightarrow> Issue \<Rightarrow> IssueComment list \<Rightarrow> string + TicketFile"
where
  "convertLinearIssueToTicket pf issue linearComments =
     (case utcToSGT pf (createdAt issue) of
        Inl e \<Rightarrow> Inl e
      | Inr created \<Rightarrow>
     (case utcToSGT pf (updatedAt issue) of
        Inl e \<Rightarrow> Inl e
      | Inr updated \<Rightarrow>
     (case (case dueDate issue of
              None \<Rightarrow> Inr None
            | Some d \<Rightarrow> if d = [] then Inr None else map_sum (\<lambda>e. e) Some (utcToSGT pf d)) of
        Inl e \<Rightarrow> Inl e
      | Inr due \<Rightarrow>
     (case convertComments pf linearComments of
        Inl e \<Rightarrow> Inl e
      | Inr cs \<Rightarrow>
          Inr \<lparr>frontmatter =
                 \<lparr>linear_id = issue_identifier issue,
                  title = issue_title issue,
                  status = state_name issue,
                  assignee = assignee_email issue,
                  labels = label_names issue,
                  priority = issue_priority issue,
                  due_date = due,
                  url = issue_url issue,
                  created_at = created,
                  updated_at = updated\<rparr>,
               ticket_content =
                 (case description issue of
                    Some d \<Rightarrow> if d \<noteq> [] then d
                               else ''# '' @ issue_title issue @ nl @ nl @ ''*No description provided*''
                  | None \<Rightarrow> ''# '' @ issue_title issue @ nl @ nl @ ''*No description provided*''),
               comments = cs\<rparr>))))"

subsection \<open>pushSingleTicket\<close>

text \<open>
  The function has two suspension points, the awaited \<open>client.getIssue\<close> and
  \<open>client.updateIssue\<close>. Its three synchronous stretches are \<open>pushLocate\<close> (find, read,
  parse and validate the file, map its folder to a state id), \<open>buildUpdates\<close> (compare
  with the remote issue) and \<open>pushRewrite\<close> (refresh \<open>updated_at\<close> and write the file).
\<close>

record PushContext =
  pc_filePath :: path
  pc_ticket :: TicketFile
  pc_newStateId :: string

definition pushLocate ::
  "'r platform \<Rightarrow> string \<Rightarrow> LinearSyncConfig \<Rightarrow> tree \<Rightarrow> string + PushContext"
where
  "pushLocate pf ticketId config t =
     (case findTicketFile t ticketId of
        None \<Rightarrow> Inl (''Ticket file for '' @ ticketId @ '' not found'')
      | Some filePath \<Rightarrow>
     (case readFileSync t filePath of
        Inl e \<Rightarrow> Inl e
      | Inr content \<Rightarrow>
     (case parseFile pf content of
        Inl e \<Rightarrow> Inl e
      | Inr ticket \<Rightarrow>
          if validateFile pf content \<noteq> []
          then Inl (''Invalid ticket file: '' @ join (validateFile pf content) '', '')
          else
            (let currentFolder = fst filePath in
             case findStateIdForFolder currentFolder (statusMapping config) of
               None \<Rightarrow> Inl (''Cannot find Linear state ID for folder '' @ [CHR 0x22] @ currentFolder @ [CHR 0x22])
             | Some newStateId \<Rightarrow>
                 if newStateId = []
                 then Inl (''Cannot find Linear state ID for folder '' @ [CHR 0x22] @ currentFolder @ [CHR 0x22])
                 else Inr \<lparr>pc_filePath = filePath, pc_ticket = ticket,
                           pc_newStateId = newStateId\<rparr>))))"

text \<open>\<open>titleFromFrontmatter || titleFromFilename\<close>\<close>

definition newTitle :: "PushContext \<Rightarrow> string option" where
  "newTitle ctx =
     (let titleFromFrontmatter = title (frontmatter (pc_ticket ctx));
          filename = basenameMd (snd (pc_filePath ctx));
          titleFromFilename =
            extractTitleFromFilename filename (linear_id (frontmatter (pc_ticket ctx)))
      in if titleFromFrontmatter \<noteq> [] then Some titleFromFrontmatter else titleFromFilename)"

definition buildUpdates :: "PushContext \<Rightarrow> Issue \<Rightarrow> IssueUpdate" where
  "buildUpdates ctx linearIssue =
     \<lparr>upd_stateId =
        (if state_id linearIssue \<noteq> pc_newStateId ctx then Some (pc_newStateId ctx) else None),
      upd_title =
        (case newTitle ctx of
           None \<Rightarrow> None
         | Some t \<Rightarrow> if t \<noteq> [] \<and> issue_title linearIssue \<noteq> t then Some t else None),
      upd_description =
        (if ticket_content (pc_ticket ctx) \<noteq> [] \<and>
            description linearIssue \<noteq> Some (ticket_content (pc_ticket ctx))
         then Some (ticket_content (pc_ticket ctx)) else None)\<rparr>"

text \<open>\<open>Object.keys(updates).length > 0\<close>\<close>

definition hasKeys :: "IssueUpdate \<Rightarrow> bool" where
  "hasKeys u = (upd_stateId u \<noteq> None \<or> upd_title u \<noteq> None \<or> upd_description u \<noteq> None)"

definition pushRewrite :: "'r platform \<Rightarrow> PushContext \<Rightarrow> 'r world \<Rightarrow> (string + unit) \<times> 'r world" where
  "pushRewrite pf ctx w =
     (case TimezoneUtils_now pf (env w) of
        Inl e \<Rightarrow> (Inl e, w)
      | Inr now \<Rightarrow>
     (case generateFile pf ((pc_ticket ctx)\<lparr>frontmatter := (frontmatter (pc_ticket ctx))\<lparr>updated_at := now\<rparr>\<rparr>) of
        Inl e \<Rightarrow> (Inl e, w)
      | Inr updatedContent \<Rightarrow>
     (case writeFileSync (tree w) (pc_filePath ctx) updatedContent (currentTime pf (env w)) of
        Inl e \<Rightarrow> (Inl e, w)
      | Inr t' \<Rightarrow> (Inr (), w\<lparr>tree := t'\<rparr>))))"

definition pushSingleTicket ::
  "'r platform \<Rightarrow> string \<Rightarrow> 'r LinearSyncClient \<Rightarrow> LinearSyncConfig \<Rightarrow> 'r world
     \<Rightarrow> (string + unit) \<times> 'r world"
where
  "pushSingleTicket pf ticketId client config w =
     (case pushLocate pf ticketId config (tree w) of
        Inl e \<Rightarrow> (Inl e, w)
      | Inr ctx \<Rightarrow>
     (case getIssue client (linear_id (frontmatter (pc_ticket ctx))) (env w) of
        (Inl e, r1) \<Rightarrow> (Inl e, w\<lparr>env := r1\<rparr>)
      | (Inr linearIssue, r1) \<Rightarrow>
          (let updates = buildUpdates ctx linearIssue in
           if hasKeys updates then
             (case updateIssue client (issue_id linearIssue) updates r1 of
                (Inl e, r2) \<Rightarrow>
                  (Inl e, w\<lparr>env := r2,
                            updateCalls := updateCalls w @ [(issue_id linearIssue, updates)]\<rparr>)
              | (Inr u, r2) \<Rightarrow>
                  pushRewrite pf ctx
                    (w\<lparr>env := r2,
                       updateCalls := updateCalls w @ [(issue_id linearIssue, updates)]\<rparr>))
           else (Inr (), w\<lparr>env := r1\<rparr>))))"

subsection \<open>pushAllTickets\<close>






subsection \<open>pullSingleTicket\<close>

text \<open>
  After its one suspension point, the awaited \<open>client.getIssue\<close>, the function runs
  synchronously: \<open>pullWrite\<close>.
\<close>

definition pullWrite ::
  "'r platform \<Rightarrow> LinearSyncConfig \<Rightarrow> Issue \<Rightarrow> 'r world \<Rightarrow> (string + unit) \<times> 'r world"
where
  "pullWrite pf config issue w =
     (let existingFilePath = findTicketFile (tree w) (issue_identifier issue);
          unknownState = ''Unknown Linear state '' @ [CHR 0x22] @ state_name issue @ [CHR 0x22] @
                         '' not in config''
      in
      case findStatusFolder (state_name issue) (statusMapping config) of
        None \<Rightarrow> (Inl unknownState, w)
      | Some statusFolder \<Rightarrow>
          if statusFolder = [] then (Inl unknownState, w)
          else
            (let filename = generateFilename (issue_identifier issue) (issue_title issue)
                              (parent_identifier issue);
                 newFilePath = (statusFolder, filename)
             in
             case convertLinearIssueToTicket pf issue (comment_nodes issue) of
               Inl e \<Rightarrow> (Inl e, w)
             | Inr ticket \<Rightarrow>
             (case generateFile pf ticket of
               Inl e \<Rightarrow> (Inl e, w)
             | Inr content \<Rightarrow>
             (case (case existingFilePath of
                      None \<Rightarrow> Inr (tree w)
                    | Some existing \<Rightarrow>
                        if existing \<noteq> newFilePath then unlinkSync (tree w) existing
                        else Inr (tree w)) of
               Inl e \<Rightarrow> (Inl e, w)
             | Inr t1 \<Rightarrow>
             (case writeFileSync (ensureDir t1 statusFolder) newFilePath content
                     (currentTime pf (env w)) of
               Inl e \<Rightarrow> (Inl e, w\<lparr>tree := ensureDir t1 statusFolder\<rparr>)
             | Inr t3 \<Rightarrow> (Inr (), w\<lparr>tree := t3\<rparr>))))))"

definition pullSingleTicket ::
  "'r platform \<Rightarrow> string \<Rightarrow> 'r LinearSyncClient \<Rightarrow> LinearSyncConfig \<Rightarrow> 'r world
     \<Rightarrow> (string + unit) \<times> 'r world"
where
  "pullSingleTicket pf ticketId client config w =
     (case getIssue client ticketId (env w) of
        (Inl e, r1) \<Rightarrow> (Inl e, w\<lparr>env := r1\<rparr>)
      | (Inr issue, r1) \<Rightarrow> pullWrite pf config issue (w\<lparr>env := r1\<rparr>))"

text \<open>The files of the tree that \<open>findTicketFile\<close> takes for files of a ticket id.\<close>

definition ticketFilesOf :: "tree \<Rightarrow> string \<Rightarrow> path list" where
  "ticketFilesOf t ticketId =
     concat (map (\<lambda>(folder, files).
        map (\<lambda>fname. (folder, fname)) (filter (isTicketFileOf ticketId) (map fst files))) t)"

text \<open>A directory lists a name once.\<close>

definition wellFormedTree :: "tree \<Rightarrow> bool" where
  "wellFormedTree t = (distinct (map fst t) \<and> list_all (\<lambda>(folder, files). distinct (map fst files)) t)"

subsection \<open>Matching of local and remote fields\<close>


section \<open>A concrete platform, client and tree\<close>

text \<open>
  Stand-ins for the libraries and the remote service, to run the model on concrete
  inputs: a platform that knows the YAML of finitely many frontmatters and comment lists
  and finitely many dates, and a client over an in-memory list of issues.
\<close>

definition stripLeadingNewline :: "string \<Rightarrow> string" where
  "stripLeadingNewline s = (case s of [] \<Rightarrow> [] | c # r \<Rightarrow> if c = CHR 0x0A then r else s)"

type_synonym testEnv = "int \<times> Issue list"

definition tablePlatform ::
  "(TicketMetadata \<times> string) list \<Rightarrow> (Comment list \<times> string) list \<Rightarrow> (string \<times> int) list
     \<Rightarrow> (int \<times> string) list \<Rightarrow> testEnv platform"
where
  "tablePlatform fms cms parses isos =
     \<lparr>matter = (\<lambda>content.
        case find (\<lambda>e. prefix (''---'' @ nl @ snd e @ ''---'') content) fms of
          None \<Rightarrow> Inl ''can not read a block mapping entry''
        | Some e \<Rightarrow>
            Inr (fst e, stripLeadingNewline (drop (length (''---'' @ nl @ snd e @ ''---'')) content))),
      yamlLoad = (\<lambda>s. map_option fst (find (\<lambda>e. trim (snd e) = s) cms)),
      yamlDumpFrontmatter = (\<lambda>fm.
        case find (\<lambda>e. fst e = fm) fms of
          None \<Rightarrow> Inl ''unacceptable kind of an object to dump''
        | Some e \<Rightarrow> Inr (snd e)),
      yamlDumpComments = (\<lambda>cs.
        case find (\<lambda>e. fst e = cs) cms of
          None \<Rightarrow> Inl ''unacceptable kind of an object to dump''
        | Some e \<Rightarrow> Inr (snd e)),
      dateParse = map_of parses,
      toISOString = (\<lambda>t. case map_of isos t of Some s \<Rightarrow> s | None \<Rightarrow> ''Invalid Date''),
      currentTime = fst\<rparr>"

definition applyUpdate :: "IssueUpdate \<Rightarrow> Issue \<Rightarrow> Issue" where
  "applyUpdate u i =
     i\<lparr>state_id := (case upd_stateId u of Some x \<Rightarrow> x | None \<Rightarrow> state_id i),
       issue_title := (case upd_title u of Some x \<Rightarrow> x | None \<Rightarrow> issue_title i),
       description := (case upd_description u of Some x \<Rightarrow> Some x | None \<Rightarrow> description i)\<rparr>"

definition memClient :: "testEnv LinearSyncClient" where
  "memClient =
     \<lparr>getIssue = (\<lambda>issueId r.
        case find (\<lambda>i. issue_identifier i = issueId \<or> issue_id i = issueId) (snd r) of
          None \<Rightarrow> (Inl (''Issue '' @ issueId @ '' not found''), r)
        | Some i \<Rightarrow> (Inr i, r)),
      updateIssue = (\<lambda>issueId u r.
        (Inr (), (fst r, map (\<lambda>i. if issue_id i = issueId then applyUpdate u i else i) (snd r))))\<rparr>"

definition fmA :: TicketMetadata where
  "fmA = \<lparr>linear_id = ''PAP-1'', title = ''Fix login'', status = ''Todo'', assignee = None,
          labels = [], priority = 0, due_date = None, url = ''https://linear.app/PAP-1'',
          created_at = ''2024-01-01T08:00:00.000+08:00'',
          updated_at = ''2024-01-01T08:00:00.000+08:00''\<rparr>"

definition yamlA :: string where
  "yamlA = ''linear_id: PAP-1'' @ nl @ ''updated_at: 2024-01-01T08:00:00.000+08:00'' @ nl"

definition yamlA' :: string where
  "yamlA' = ''linear_id: PAP-1'' @ nl @ ''updated_at: 2024-01-02T08:00:00.000+08:00'' @ nl"

definition yamlDone :: string where
  "yamlDone = ''linear_id: PAP-1'' @ nl @ ''status: Done'' @ nl"

definition fmB :: TicketMetadata where
  "fmB = \<lparr>linear_id = ''PAP-2'', title = ''Add search'', status = ''Todo'', assignee = None,
          labels = [], priority = 0, due_date = None, url = ''https://linear.app/PAP-2'',
          created_at = ''2024-01-01T08:00:00.000+08:00'',
          updated_at = ''2024-01-01T08:00:00.000+08:00''\<rparr>"

definition yamlB :: string where
  "yamlB = ''linear_id: PAP-2'' @ nl @ ''updated_at: 2024-01-01T08:00:00.000+08:00'' @ nl"

definition yamlB' :: string where
  "yamlB' = ''linear_id: PAP-2'' @ nl @ ''updated_at: 2024-01-02T08:00:00.000+08:00'' @ nl"

definition fmChild :: TicketMetadata where
  "fmChild = \<lparr>linear_id = ''PAP-447'', title = ''Child task'', status = ''Todo'', assignee = None,
          labels = [], priority = 0, due_date = None, url = ''https://linear.app/PAP-447'',
          created_at = ''2024-01-01T08:00:00.000+08:00'',
          updated_at = ''2024-01-01T08:00:00.000+08:00''\<rparr>"

definition yamlChild :: string where
  "yamlChild = ''linear_id: PAP-447'' @ nl @ ''status: Todo'' @ nl"

definition yamlChildDone :: string where
  "yamlChildDone = ''linear_id: PAP-447'' @ nl @ ''status: Done'' @ nl"

definition commentsA :: "Comment list" where
  "commentsA = [\<lparr>comment_id = ''c1'', author = ''ann@example.com'', comment_content = ''Looks good'',
                  comment_created_at = ''2024-01-01T08:00:00.000+08:00''\<rparr>]"

definition yamlCommentsA :: string where
  "yamlCommentsA = ''- id: c1'' @ nl @ ''  content: Looks good'' @ nl"

definition testPlatform :: "testEnv platform" where
  "testPlatform = tablePlatform
     [(fmA, yamlA), (fmA\<lparr>updated_at := ''2024-01-02T08:00:00.000+08:00''\<rparr>, yamlA'),
      (fmA\<lparr>status := ''Done''\<rparr>, yamlDone),
      (fmB, yamlB), (fmB\<lparr>updated_at := ''2024-01-02T08:00:00.000+08:00''\<rparr>, yamlB'),
      (fmChild, yamlChild), (fmChild\<lparr>status := ''Done''\<rparr>, yamlChildDone)]
     [(commentsA, yamlCommentsA)]
     [(''2024-01-01T00:00:00.000Z'', 1704067200000),
      (''2024-01-01T08:00:00.000+08:00'', 1704067200000),
      (''2024-01-02T00:00:00.000Z'', 1704153600000),
      (''2024-01-02T08:00:00.000+08:00'', 1704153600000)]
     [(1704096000000, ''2024-01-01T08:00:00.000Z''),
      (1704153600000, ''2024-01-02T00:00:00.000Z''),
      (1704182400000, ''2024-01-02T08:00:00.000Z'')]"

definition testConfig :: LinearSyncConfig where
  "testConfig = \<lparr>teamId = ''team'',
     statusMapping = [(''Todo'', \<lparr>mapping_id = ''s-todo'', mapping_folder = ''todo''\<rparr>),
                      (''Done'', \<lparr>mapping_id = ''s-done'', mapping_folder = ''done''\<rparr>)]\<rparr>"

definition issueA :: Issue where
  "issueA = \<lparr>issue_id = ''uuid-1'', issue_identifier = ''PAP-1'', issue_title = ''Fix login'',
     description = Some ''Body'', issue_url = ''https://linear.app/PAP-1'', issue_priority = 0,
     createdAt = ''2024-01-01T00:00:00.000Z'', updatedAt = ''2024-01-01T00:00:00.000Z'',
     dueDate = None, label_names = [], assignee_email = None, parent_identifier = None,
     state_id = ''s-todo'', state_name = ''Todo'', comment_nodes = []\<rparr>"

definition fileA :: string where
  "fileA = ''---'' @ nl @ yamlA @ ''---'' @ nl @ nl @ ''Body''"

definition treeA :: tree where
  "treeA = [(''todo'', [(''PAP-1-fix-login.md'', \<lparr>file_content = fileA, file_mtime = 1704067200500\<rparr>)]), (''done'', [])]"

definition worldA :: "testEnv world" where
  "worldA = \<lparr>tree = treeA, env = (1704153600000, [issueA]), updateCalls = []\<rparr>"


definition ctxA :: PushContext where
  "ctxA = \<lparr>pc_filePath = (''todo'', ''PAP-1-fix-login.md''),
           pc_ticket = \<lparr>frontmatter = fmA, ticket_content = ''Body'', comments = []\<rparr>,
           pc_newStateId = ''s-todo''\<rparr>"

definition issueDone :: Issue where
  "issueDone = issueA\<lparr>state_id := ''s-done'', state_name := ''Done''\<rparr>"

definition worldB :: "testEnv world" where
  "worldB = worldA\<lparr>env := (1704153600000, [issueDone])\<rparr>"



text \<open>The tree without the entry at a path: what a successful \<open>unlinkSync\<close> leaves.\<close>

definition removeAt :: "path \<Rightarrow> tree \<Rightarrow> tree" where
  "removeAt p t = map (\<lambda>(d, fs). if d = fst p then (d, removeEntry (snd p) fs) else (d, fs)) t"









text \<open>
  A sub-issue of team \<open>PAP\<close> whose parent issue belongs to team \<open>ENG\<close>, in state Todo; the
  empty tree in which it is pulled for the first time; and the tree that pull leaves,
  at the later time at which the remote issue has moved to Done.
\<close>

definition issueChild :: Issue where
  "issueChild = \<lparr>issue_id = ''uuid-447'', issue_identifier = ''PAP-447'', issue_title = ''Child task'',
     description = Some ''Body'', issue_url = ''https://linear.app/PAP-447'', issue_priority = 0,
     createdAt = ''2024-01-01T00:00:00.000Z'', updatedAt = ''2024-01-01T00:00:00.000Z'',
     dueDate = None, label_names = [], assignee_email = None, parent_identifier = Some ''ENG-9'',
     state_id = ''s-todo'', state_name = ''Todo'', comment_nodes = []\<rparr>"

definition fileChild :: string where
  "fileChild = ''---'' @ nl @ yamlChild @ ''---'' @ nl @ nl @ ''Body''"

definition fileChildDone :: string where
  "fileChildDone = ''---'' @ nl @ yamlChildDone @ ''---'' @ nl @ nl @ ''Body''"

definition worldChild :: "testEnv world" where
  "worldChild = \<lparr>tree = [(''todo'', []), (''done'', [])], env = (1704153600000, [issueChild]),
                  updateCalls = []\<rparr>"

definition worldChildMoved :: "testEnv world" where
  "worldChildMoved =
     \<lparr>tree = [(''todo'', [(''ENG-9.447-child-task.md'',
                           \<lparr>file_content = fileChild, file_mtime = 1704153600000\<rparr>)]),
              (''done'', [])],
      env = (1704153700000, [issueChild\<lparr>state_id := ''s-done'', state_name := ''Done''\<rparr>]),
      updateCalls = []\<rparr>"

text \<open>
  Tickets for the codec: one with a comment, one whose content ends in a newline, one
  whose content holds the separator line, and one whose content begins with U+FEFF and
  ends with U+00A0 and U+2028.
\<close>

definition spacedTicket :: TicketFile where
  "spacedTicket =
     \<lparr>frontmatter = fmA,
      ticket_content = [CHR 0xEF, CHR 0xBB, CHR 0xBF] @ ''Body'' @
                       [CHR 0xC2, CHR 0xA0, CHR 0xE2, CHR 0x80, CHR 0xA8],
      comments = []\<rparr>"

definition commentedTicket :: TicketFile where
  "commentedTicket = \<lparr>frontmatter = fmA, ticket_content = ''Body'', comments = commentsA\<rparr>"

definition paddedTicket :: TicketFile where
  "paddedTicket = \<lparr>frontmatter = fmA, ticket_content = ''Body'' @ nl, comments = []\<rparr>"

definition separatorTicket :: TicketFile where
  "separatorTicket =
     \<lparr>frontmatter = fmA,
      ticket_content = ''Body'' @ nl @ ''---comments---'' @ nl @ ''More'',
      comments = []\<rparr>"

section \<open>SyncDaemon: the webhook endpoint\<close>

text \<open>
  The fields of the JSON body that the handler reads: \<open>action\<close>, \<open>type\<close>,
  \<open>data.identifier\<close> and \<open>data.issue.identifier\<close>; an absent field is \<open>None\<close>.
\<close>

record WebhookBody =
  wb_action :: "string option"
  wb_type :: "string option"
  wb_data_identifier :: "string option"
  wb_data_issue_identifier :: "string option"

text \<open>\<open>data?.identifier || data?.issue?.identifier\<close>, when truthy.\<close>

definition webhookTicketId :: "WebhookBody \<Rightarrow> string option" where
  "webhookTicketId body =
     (case wb_data_identifier body of
        Some i \<Rightarrow> if i \<noteq> [] then Some i
                   else (case wb_data_issue_identifier body of
                           Some j \<Rightarrow> if j \<noteq> [] then Some j else None
                         | None \<Rightarrow> None)
      | None \<Rightarrow> (case wb_data_issue_identifier body of
                    Some j \<Rightarrow> if j \<noteq> [] then Some j else None
                  | None \<Rightarrow> None))"

text \<open>
  The closure \<open>syncTicket\<close> hands to \<open>withRetry\<close>: load the configuration (its result
  is the argument \<open>cfg\<close>, an error when the file is missing or invalid), pull the ticket,
  then \<open>sendSlackNotification\<close>, which fetches the issue once more and swallows every
  error of its own. The Slack service is not modelled.
\<close>

definition syncOperation ::
  "'r platform \<Rightarrow> 'r LinearSyncClient \<Rightarrow> string + LinearSyncConfig \<Rightarrow> string
     \<Rightarrow> (unit, 'r world) operation"
where
  "syncOperation pf client cfg ticketId w =
     (case cfg of
        Inl e \<Rightarrow> (Inl e, w)
      | Inr config \<Rightarrow>
          (case pullSingleTicket pf ticketId client config w of
             (Inl e, w') \<Rightarrow> (Inl e, w')
           | (Inr u, w') \<Rightarrow> (Inr (), w'\<lparr>env := snd (getIssue client ticketId (env w'))\<rparr>)))"

definition syncTicket ::
  "'r platform \<Rightarrow> 'r LinearSyncClient \<Rightarrow> string + LinearSyncConfig \<Rightarrow> string \<Rightarrow> 'r world
     \<Rightarrow> (unit, 'r world) retry_run"
where
  "syncTicket pf client cfg ticketId w = withRetry (syncOperation pf client cfg ticketId) emptyConfig w"

text \<open>
  The match of \<open>/^([A-Z]+-\d+(?:\.\d+)?)-/\<close>, or the empty string: for
  \<open>PAP-123-title.md\<close> it is \<open>PAP-123\<close>, for \<open>PAP-123.456-title.md\<close> it is \<open>PAP-123.456\<close>.
\<close>

definition extractTicketIdFromFilename :: "string \<Rightarrow> string" where
  "extractTicketIdFromFilename filename =
     (let letters = takeWhile isUpper filename in
      if letters = [] then []
      else
        (case dropWhile isUpper filename of
           [] \<Rightarrow> []
         | c # r \<Rightarrow>
             if c \<noteq> CHR ''-'' then []
             else
               (let digits = takeWhile isDigit r in
                if digits = [] then []
                else
                  (case dropWhile isDigit r of
                     [] \<Rightarrow> []
                   | c' # r' \<Rightarrow>
                       if c' = CHR ''-'' then letters @ ''-'' @ digits
                       else if c' = CHR ''.'' \<and> takeWhile isDigit r' \<noteq> [] \<and>
                               (case dropWhile isDigit r' of [] \<Rightarrow> False | c'' # r'' \<Rightarrow> c'' = CHR ''-'')
                       then letters @ ''-'' @ digits @ ''.'' @ takeWhile isDigit r'
                       else []))))"

text \<open>
  \<open>removeLocalTicketFile\<close>: the first status folder of the configuration that exists
  and lists a file of the ticket loses that file. Every error inside is caught and
  logged, so the tree is then left as it is.
\<close>

fun removeLocalLoop :: "(string \<times> StatusMapping) list \<Rightarrow> string \<Rightarrow> tree \<Rightarrow> tree" where
  "removeLocalLoop [] ticketId t = t"
| "removeLocalLoop ((statusName, statusConfig) # rest) ticketId t =
     (case map_of t (mapping_folder statusConfig) of
        None \<Rightarrow> removeLocalLoop rest ticketId t
      | Some files \<Rightarrow>
          (case find (\<lambda>fname. extractTicketIdFromFilename fname = ticketId) (map fst files) of
             None \<Rightarrow> removeLocalLoop rest ticketId t
           | Some matchingFile \<Rightarrow>
               (case unlinkSync t (mapping_folder statusConfig, matchingFile) of
                  Inl e \<Rightarrow> t
                | Inr t' \<Rightarrow> t')))"

definition removeLocalTicketFile :: "string + LinearSyncConfig \<Rightarrow> string \<Rightarrow> tree \<Rightarrow> tree" where
  "removeLocalTicketFile cfg ticketId t =
     (case cfg of Inl e \<Rightarrow> t | Inr config \<Rightarrow> removeLocalLoop (statusMapping config) ticketId t)"

text \<open>
  The closure of \<open>handleTicketDeletion\<close>: remove the local file, then send the Slack
  notification (errors swallowed, not modelled). It throws nothing.
\<close>

definition deletionOperation :: "string + LinearSyncConfig \<Rightarrow> string \<Rightarrow> (unit, 'r world) operation" where
  "deletionOperation cfg ticketId w = (Inr (), w\<lparr>tree := removeLocalTicketFile cfg ticketId (tree w)\<rparr>)"

definition handleTicketDeletion ::
  "string + LinearSyncConfig \<Rightarrow> string \<Rightarrow> 'r world \<Rightarrow> (unit, 'r world) retry_run"
where
  "handleTicketDeletion cfg ticketId w = withRetry (deletionOperation cfg ticketId) emptyConfig w"

text \<open>
  The handler of \<open>POST /webhook\<close>: the HTTP status it sends and the world afterwards. The
  status is sent after the awaited work: 200 at the end of the \<open>try\<close> block, 500 in its
  \<open>catch\<close>. The two-second wait before a comment's sync changes no state and is left out.
\<close>

definition webhookHandler ::
  "'r platform \<Rightarrow> 'r LinearSyncClient \<Rightarrow> string + LinearSyncConfig \<Rightarrow> WebhookBody \<Rightarrow> 'r world
     \<Rightarrow> nat \<times> 'r world"
where
  "webhookHandler pf client cfg body w =
     (case webhookTicketId body of
        None \<Rightarrow> (200, w)
      | Some ticketId \<Rightarrow>
          if wb_action body = Some ''update'' \<or> wb_action body = Some ''create'' then
            (case syncTicket pf client cfg ticketId w of
               (Inl e, w', slept, invoked) \<Rightarrow> (500, w')
             | (Inr u, w', slept, invoked) \<Rightarrow> (200, w'))
          else if wb_action body = Some ''remove'' then
            (case handleTicketDeletion cfg ticketId w of
               (Inl e, w', slept, invoked) \<Rightarrow> (500, w')
             | (Inr u, w', slept, invoked) \<Rightarrow> (200, w'))
          else (200, w))"

text \<open>A client whose every call fails with the same message, and three request bodies.\<close>

definition failingClient :: "string \<Rightarrow> testEnv LinearSyncClient" where
  "failingClient msg =
     \<lparr>getIssue = (\<lambda>issueId r. (Inl msg, r)),
      updateIssue = (\<lambda>issueId u r. (Inl msg, r))\<rparr>"

definition updateBody :: WebhookBody where
  "updateBody = \<lparr>wb_action = Some ''update'', wb_type = Some ''Issue'',
                  wb_data_identifier = Some ''PAP-1'', wb_data_issue_identifier = None\<rparr>"

definition removeBody :: WebhookBody where
  "removeBody = \<lparr>wb_action = Some ''remove'', wb_type = Some ''Issue'',
                  wb_data_identifier = Some ''PAP-1'', wb_data_issue_identifier = None\<rparr>"

definition pingBody :: WebhookBody where
  "pingBody = \<lparr>wb_action = Some ''ping'', wb_type = None,
                wb_data_identifier = Some ''PAP-1'', wb_data_issue_identifier = None\<rparr>"


section \<open>SyncDaemon: the file watcher's debounce\<close>

datatype FileAction = Added | Removed

text \<open>A raw event of the watcher: the time it is delivered, in ms, its path and kind.\<close>

record FileEvent =
  ev_time :: int
  ev_path :: string
  ev_action :: FileAction

text \<open>
  \<open>moveDebounceMap\<close> holds for a key the id of its live timer; a timer is dropped from
  the map when it fires and cleared when its key is set again, so the live timers are
  exactly the map's values. Here the map gives for a key the deadline of its live timer
  and the action its callback has captured. \<open>pushLog\<close> lists, for a ticket id, the
  times at which a timer callback called \<open>pushSingleTicket\<close> for it (the callback catches
  and logs whatever that call throws).
\<close>

record debouncer =
  moveDebounceMap :: "string \<Rightarrow> (int \<times> FileAction) option"
  pushLog :: "string \<Rightarrow> int list"

definition idle :: debouncer where
  "idle = \<lparr>moveDebounceMap = (\<lambda>k. None), pushLog = (\<lambda>k. [])\<rparr>"

text \<open>\<open>path.basename(filePath)\<close>\<close>

definition basename :: "string \<Rightarrow> string" where
  "basename p = rev (takeWhile (\<lambda>c. c \<noteq> CHR ''/'') (rev p))"

text \<open>The match of \<open>/^([A-Z]+-\d+)/\<close>.\<close>

definition matchTicketId :: "string \<Rightarrow> string option" where
  "matchTicketId filename =
     (let letters = takeWhile isUpper filename in
      if letters = [] then None
      else
        (case dropWhile isUpper filename of
           [] \<Rightarrow> None
         | c # r \<Rightarrow>
             if c \<noteq> CHR ''-'' then None
             else
               (let digits = takeWhile isDigit r in
                if digits = [] then None else Some (letters @ ''-'' @ digits))))"

text \<open>The key under which \<open>handleFileMove\<close> debounces a path, if it handles the path at all.\<close>

definition debounceKey :: "string \<Rightarrow> string option" where
  "debounceKey filePath =
     (if \<not> endsWith filePath ''.md'' \<or> endsWith filePath ''README.md'' then None
      else matchTicketId (basename filePath))"

text \<open>
  \<open>handleFileMove\<close> at time \<open>now\<close>: clear the key's timer if there is one, start a new one
  of 2000 ms and store it under the key.
\<close>

definition handleFileMove :: "int \<Rightarrow> string \<Rightarrow> FileAction \<Rightarrow> debouncer \<Rightarrow> debouncer" where
  "handleFileMove now filePath action d =
     (case debounceKey filePath of
        None \<Rightarrow> d
      | Some ticketId \<Rightarrow> d\<lparr>moveDebounceMap := (moveDebounceMap d)(ticketId \<mapsto> (now + 2000, action))\<rparr>)"

text \<open>
  Time passes until \<open>t\<close>: every timer whose deadline has come fires. Its callback deletes
  the key from the map and, when the captured action is \<open>added\<close>, pushes the ticket.
\<close>

definition advance :: "int \<Rightarrow> debouncer \<Rightarrow> debouncer" where
  "advance t d =
     \<lparr>moveDebounceMap = (\<lambda>k.
        case moveDebounceMap d k of
          None \<Rightarrow> None
        | Some timer \<Rightarrow> if fst timer \<le> t then None else Some timer),
      pushLog = (\<lambda>k.
        case moveDebounceMap d k of
          None \<Rightarrow> pushLog d k
        | Some timer \<Rightarrow>
            if fst timer \<le> t \<and> snd timer = Added then pushLog d k @ [fst timer]
            else pushLog d k)\<rparr>"

text \<open>The watcher delivers its events in order; the timers due by then fire first.\<close>

fun run :: "FileEvent list \<Rightarrow> debouncer \<Rightarrow> debouncer" where
  "run [] d = d"
| "run (e # evs) d =
     run evs (handleFileMove (ev_time e) (ev_path e) (ev_action e) (advance (ev_time e) d))"

text \<open>Consecutive times lie less than \<open>w\<close> apart.\<close>

fun gapsBelow :: "int \<Rightarrow> int list \<Rightarrow> bool" where
  "gapsBelow w [] = True"
| "gapsBelow w [t] = True"
| "gapsBelow w (t # t' # ts) = (t' < t + w \<and> gapsBelow w (t' # ts))"

text \<open>The events of a list that are debounced under a key.\<close>

definition eventsOf :: "string \<Rightarrow> FileEvent list \<Rightarrow> FileEvent list" where
  "eventsOf k evs = filter (\<lambda>e. debounceKey (ev_path e) = Some k) evs"

text \<open>Five rapid \<open>added\<close> events for one ticket, with an event for another in between.\<close>

definition burstEvents :: "FileEvent list" where
  "burstEvents =
     [\<lparr>ev_time = 0, ev_path = ''linear-tickets/todo/PAP-1-fix-login.md'', ev_action = Added\<rparr>,
      \<lparr>ev_time = 100, ev_path = ''linear-tickets/todo/PAP-1-fix-login.md'', ev_action = Added\<rparr>,
      \<lparr>ev_time = 150, ev_path = ''linear-tickets/todo/PAP-2-add-search.md'', ev_action = Removed\<rparr>,
      \<lparr>ev_time = 1900, ev_path = ''linear-tickets/done/PAP-1-fix-login.md'', ev_action = Added\<rparr>,
      \<lparr>ev_time = 3800, ev_path = ''linear-tickets/done/PAP-1-fix-login.md'', ev_action = Added\<rparr>,
      \<lparr>ev_time = 3900, ev_path = ''linear-tickets/todo/PAP-1-fix-login.md'', ev_action = Added\<rparr>]"


section \<open>Operations in flight at the same time\<close>

text \<open>
  The daemon starts a pull from the webhook handler and a push from a debounce timer.
  Both are \<open>async\<close> functions: one runs without interruption until it suspends at an
  \<open>await\<close>, and while it is suspended any other pending operation may be resumed. The
  daemon keeps no lock and no queue per ticket, so which suspended operation is resumed
  next is left to the order in which the awaited calls return. A task is an operation
  between two of its synchronous stretches:
  \<^item> \<open>PullPending\<close>: \<open>pullSingleTicket\<close> waits for \<open>client.getIssue\<close>; what follows is
    \<open>pullWrite\<close>;
  \<^item> \<open>PushPending\<close>: the timer callback is about to call \<open>pushSingleTicket\<close>;
  \<^item> \<open>PushAwaitIssue\<close>: the push has located and read its file and waits for
    \<open>client.getIssue\<close>;
  \<^item> \<open>PushAwaitUpdate\<close>: the push has compared and waits for \<open>client.updateIssue\<close>;
  \<^item> \<open>Finished\<close>: the operation has returned or thrown.
  A remote call takes effect at the moment its caller is resumed.
\<close>

datatype task =
    PullPending string
  | PushPending string
  | PushAwaitIssue PushContext
  | PushAwaitUpdate PushContext Issue IssueUpdate
  | Finished "string + unit"

fun taskStep ::
  "'r platform \<Rightarrow> 'r LinearSyncClient \<Rightarrow> LinearSyncConfig \<Rightarrow> task \<Rightarrow> 'r world
     \<Rightarrow> (task \<times> 'r world) option"
where
  "taskStep pf client config (PullPending ticketId) w =
     Some (Finished (fst (pullSingleTicket pf ticketId client config w)),
           snd (pullSingleTicket pf ticketId client config w))"
| "taskStep pf client config (PushPending ticketId) w =
     (case pushLocate pf ticketId config (tree w) of
        Inl e \<Rightarrow> Some (Finished (Inl e), w)
      | Inr ctx \<Rightarrow> Some (PushAwaitIssue ctx, w))"
| "taskStep pf client config (PushAwaitIssue ctx) w =
     (case getIssue client (linear_id (frontmatter (pc_ticket ctx))) (env w) of
        (Inl e, r1) \<Rightarrow> Some (Finished (Inl e), w\<lparr>env := r1\<rparr>)
      | (Inr linearIssue, r1) \<Rightarrow>
          if hasKeys (buildUpdates ctx linearIssue)
          then Some (PushAwaitUpdate ctx linearIssue (buildUpdates ctx linearIssue), w\<lparr>env := r1\<rparr>)
          else Some (Finished (Inr ()), w\<lparr>env := r1\<rparr>))"
| "taskStep pf client config (PushAwaitUpdate ctx linearIssue updates) w =
     (case updateIssue client (issue_id linearIssue) updates (env w) of
        (Inl e, r2) \<Rightarrow>
          Some (Finished (Inl e),
                w\<lparr>env := r2, updateCalls := updateCalls w @ [(issue_id linearIssue, updates)]\<rparr>)
      | (Inr u, r2) \<Rightarrow>
          Some (Finished (fst (pushRewrite pf ctx
                  (w\<lparr>env := r2, updateCalls := updateCalls w @ [(issue_id linearIssue, updates)]\<rparr>))),
                snd (pushRewrite pf ctx
                  (w\<lparr>env := r2, updateCalls := updateCalls w @ [(issue_id linearIssue, updates)]\<rparr>))))"
| "taskStep pf client config (Finished res) w = None"

text \<open>One task run on its own, for at most \<open>n\<close> stretches.\<close>

fun runAlone ::
  "'r platform \<Rightarrow> 'r LinearSyncClient \<Rightarrow> LinearSyncConfig \<Rightarrow> nat \<Rightarrow> task \<Rightarrow> 'r world
     \<Rightarrow> task \<times> 'r world"
where
  "runAlone pf client config 0 t w = (t, w)"
| "runAlone pf client config (Suc n) t w =
     (case taskStep pf client config t w of
        None \<Rightarrow> (t, w)
      | Some tw \<Rightarrow> runAlone pf client config n (fst tw) (snd tw))"

text \<open>
  The operations in flight, and the event loop resuming the \<open>i\<close>-th of them. Nothing in
  the step looks at the other tasks: the source has no guard there.
\<close>

definition poolStep ::
  "'r platform \<Rightarrow> 'r LinearSyncClient \<Rightarrow> LinearSyncConfig \<Rightarrow> nat \<Rightarrow> 'r world \<times> task list
     \<Rightarrow> ('r world \<times> task list) option"
where
  "poolStep pf client config i s =
     (if i < length (snd s) then
        (case taskStep pf client config (snd s ! i) (fst s) of
           None \<Rightarrow> None
         | Some tw \<Rightarrow> Some (snd tw, (snd s)[i := fst tw]))
      else None)"

fun runSchedule ::
  "'r platform \<Rightarrow> 'r LinearSyncClient \<Rightarrow> LinearSyncConfig \<Rightarrow> nat list \<Rightarrow> 'r world \<times> task list
     \<Rightarrow> ('r world \<times> task list) option"
where
  "runSchedule pf client config [] s = Some s"
| "runSchedule pf client config (i # sched) s =
     (case poolStep pf client config i s of
        None \<Rightarrow> None
      | Some s' \<Rightarrow> runSchedule pf client config sched s')"

definition isFinished :: "task \<Rightarrow> bool" where
  "isFinished t = (case t of Finished res \<Rightarrow> True | _ \<Rightarrow> False)"


text \<open>A push and a pull of the same ticket, both requested, in the world whose remote issue
  has moved to another state.\<close>

definition racePool :: "testEnv world \<times> task list" where
  "racePool = (worldB, [PushPending ''PAP-1'', PullPending ''PAP-1''])"

section \<open>Properties of RetryManager\<close>

lemma isRetryableError_patterns:
  "isRetryableError m \<longleftrightarrow>
     (\<exists>p \<in> set retryablePatterns. str_includes (toLowerCase m) p) \<or>
     \<not> (\<exists>p \<in> set fatalPatterns. str_includes (toLowerCase m) p)"
  unfolding isRetryableError_def Let_def retryablePatterns_def fatalPatterns_def
  by (simp only: list.set bex_simps insert_iff empty_iff HOL.simp_thms if_True if_False
        split: if_splits) blast

lemma retryLoop_fatal:
  assumes "attempt < maxAttempts cfg" "operation s = (Inl e, s')" "\<not> isRetryableError e"
  shows "retryLoop cfg operation attempt s slept invoked =
           (Inl (Error e), s',
            (if attempt > 0 then slept @ [retryDelay (delays cfg) attempt] else slept),
            Suc invoked)"
  using assms by (subst retryLoop.simps) (simp add: Let_def)

lemma retryLoop_success:
  assumes "attempt < maxAttempts cfg" "operation s = (Inr r, s')"
  shows "retryLoop cfg operation attempt s slept invoked =
           (Inr r, s',
            (if attempt > 0 then slept @ [retryDelay (delays cfg) attempt] else slept),
            Suc invoked)"
  using assms by (subst retryLoop.simps) (simp add: Let_def)

text \<open>
  An operation that fails with a retryable error in every world is invoked once per
  remaining attempt, and the run ends with an error.
\<close>

lemma retryLoop_exhaustion:
  "(\<And>s. \<exists>e s'. operation s = (Inl e, s') \<and> isRetryableError e) \<Longrightarrow>
     \<exists>t s' sl. retryLoop cfg operation attempt s slept invoked =
            (Inl t, s', sl, invoked + (maxAttempts cfg - attempt))"
proof (induction cfg operation attempt s slept invoked rule: retryLoop.induct)
  case (1 cfg operation attempt s slept invoked)
  show ?case
  proof (cases "attempt < maxAttempts cfg")
    case False
    then show ?thesis by (subst retryLoop.simps) simp
  next
    case True
    from "1.prems" obtain e s' where op: "operation s = (Inl e, s')" and re: "isRetryableError e"
      by blast
    show ?thesis
    proof (cases "attempt = maxAttempts cfg - 1")
      case True
      with \<open>attempt < maxAttempts cfg\<close> op re show ?thesis
        by (subst retryLoop.simps) (simp add: Let_def)
    next
      case False
      define slept' where
        "slept' = (if attempt > 0 then slept @ [retryDelay (delays cfg) attempt] else slept)"
      have IH: "\<exists>t s'' sl. retryLoop cfg operation (attempt + 1) s' slept' (Suc invoked) =
                  (Inl t, s'', sl, Suc invoked + (maxAttempts cfg - (attempt + 1)))"
        using "1.IH"[OF True slept'_def, of "Inl e" s' e] False op re "1.prems"
        by simp
      have unf: "retryLoop cfg operation attempt s slept invoked =
                   retryLoop cfg operation (attempt + 1) s' slept' (Suc invoked)"
        using True False op re by (subst retryLoop.simps) (simp add: Let_def slept'_def)
      from IH True show ?thesis unfolding unf by auto
    qed
  qed
qed

text \<open>
  C5. An operation that always raises a transient (retryable) error is attempted exactly
  \<open>maxAttempts\<close> = 3 times under the default configuration and the last error is then
  raised. The delays actually slept are recorded here: before the second attempt the
  code sleeps \<open>delays[0] || delays[2]\<close> = 120000 ms (the configured 0 is falsy), before
  the third attempt \<open>delays[1]\<close> = 30000 ms. The documented schedule (immediate, 30 s,
  2 min) is not what runs.
\<close>

theorem retry_exhaustion_default_run:
  "withRetry (\<lambda>s::nat. (Inl ''network error'' :: string + unit, Suc s)) emptyConfig 0 =
     (Inl (Error ''network error''), 3, [Some 120000, Some 30000], 3)"
  by code_simp

text \<open>
  C6. An error classified as fatal is raised to the caller right after the attempt that
  produced it: the run ends with that error, in the world that attempt left, having
  invoked the operation once more and not again. The classification is by substring of
  the lower-cased message; an error is fatal exactly when it matches a fatal pattern
  (authentication/authorization, validation/bad request, file-system permission or
  not-found) and no retryable pattern, so an error matching no pattern at all is
  retryable.
\<close>

theorem fatal_error_raised_immediately:
  "(attempt < maxAttempts cfg \<and> operation s = (Inl e, s') \<and> \<not> isRetryableError e \<longrightarrow>
      retryLoop cfg operation attempt s slept invoked =
        (Inl (Error e), s',
         (if attempt > 0 then slept @ [retryDelay (delays cfg) attempt] else slept),
         Suc invoked))
   \<and> (\<not> isRetryableError m \<longleftrightarrow>
        (\<exists>p \<in> set fatalPatterns. str_includes (toLowerCase m) p) \<and>
        \<not> (\<exists>p \<in> set retryablePatterns. str_includes (toLowerCase m) p))
   \<and> ((\<forall>p \<in> set (retryablePatterns @ fatalPatterns). \<not> str_includes (toLowerCase m) p) \<longrightarrow>
        isRetryableError m)"
proof (intro conjI impI)
  assume "attempt < maxAttempts cfg \<and> operation s = (Inl e, s') \<and> \<not> isRetryableError e"
  then show "retryLoop cfg operation attempt s slept invoked =
        (Inl (Error e), s',
         (if attempt > 0 then slept @ [retryDelay (delays cfg) attempt] else slept),
         Suc invoked)"
    by (simp add: retryLoop_fatal)
next
  show "\<not> isRetryableError m \<longleftrightarrow>
        (\<exists>p \<in> set fatalPatterns. str_includes (toLowerCase m) p) \<and>
        \<not> (\<exists>p \<in> set retryablePatterns. str_includes (toLowerCase m) p)"
    using isRetryableError_patterns[of m] by blast
next
  assume "\<forall>p \<in> set (retryablePatterns @ fatalPatterns). \<not> str_includes (toLowerCase m) p"
  then show "isRetryableError m"
    using isRetryableError_patterns[of m] by auto
qed

theorem fatal_error_raised_immediately_witness:
  "(0 < maxAttempts DEFAULT_CONFIG \<and> \<not> isRetryableError ''401 Unauthorized'') \<and>
   retryLoop DEFAULT_CONFIG (\<lambda>s::nat. (Inl ''401 Unauthorized'' :: string + unit, Suc s)) 0 0 [] 0 =
     (Inl (Error ''401 Unauthorized''), 1, [], 1) \<and>
   list_all (\<lambda>p. \<not> str_includes (toLowerCase ''disk full'') p) (retryablePatterns @ fatalPatterns) \<and>
   isRetryableError ''disk full''"
proof -
  have h1: "0 < maxAttempts DEFAULT_CONFIG" by (simp add: DEFAULT_CONFIG_def)
  have h2: "\<not> isRetryableError ''401 Unauthorized''" by code_simp
  have h3: "\<forall>p \<in> set (retryablePatterns @ fatalPatterns). \<not> str_includes (toLowerCase ''disk full'') p"
    by code_simp
  note T = fatal_error_raised_immediately[of 0 DEFAULT_CONFIG
      "\<lambda>s::nat. (Inl ''401 Unauthorized'' :: string + unit, Suc s)" 0 "''401 Unauthorized''" 1
      "[]" 0 "''disk full''"]
  from T h1 h2 have c1: "retryLoop DEFAULT_CONFIG
      (\<lambda>s::nat. (Inl ''401 Unauthorized'' :: string + unit, Suc s)) 0 0 [] 0 =
     (Inl (Error ''401 Unauthorized''), 1, [], 1)" by simp
  from T h3 have c2: "isRetryableError ''disk full''" by blast
  from h3 have h3': "list_all (\<lambda>p. \<not> str_includes (toLowerCase ''disk full'') p)
      (retryablePatterns @ fatalPatterns)" by (simp only: list_all_iff)
  from h1 h2 h3' c1 c2 show ?thesis by blast
qed

section \<open>Properties of pushSingleTicket\<close>

lemma map_of_putEntry: "map_of (putEntry k v es) k' = (if k' = k then Some v else map_of es k')"
  by (induction es) auto





lemma pushSingleTicket_noop:
  assumes "pushLocate pf ticketId config (tree w) = Inr ctx"
      and "getIssue client (linear_id (frontmatter (pc_ticket ctx))) (env w) = (Inr issue, r1)"
      and "\<not> hasKeys (buildUpdates ctx issue)"
  shows "pushSingleTicket pf ticketId client config w = (Inr (), w\<lparr>env := r1\<rparr>)"
  using assms by (simp add: pushSingleTicket_def Let_def)





lemma pushSingleTicket_tree_changed:
  assumes "tree (snd (pushSingleTicket pf ticketId client config w)) \<noteq> tree w"
  shows "\<exists>ctx issue r1 u r2.
           pushLocate pf ticketId config (tree w) = Inr ctx \<and>
           getIssue client (linear_id (frontmatter (pc_ticket ctx))) (env w) = (Inr issue, r1) \<and>
           hasKeys (buildUpdates ctx issue) \<and>
           updateIssue client (issue_id issue) (buildUpdates ctx issue) r1 = (Inr u, r2)"
  using assms
  by (auto simp: pushSingleTicket_def Let_def split: sum.splits prod.splits if_splits)

text \<open>
  C10. When a push finds no differing field (its \<open>updates\<close> object has no key) it
  succeeds without writing: the local tree, and so the file's bytes with its stored
  \<open>updated_at\<close>, is unchanged, and no \<open>updateIssue\<close> call is made. A push changes the
  local tree only when it found a differing field and its \<open>updateIssue\<close> call returned
  successfully.
\<close>

theorem push_noop_no_local_write:
  "(pushLocate pf ticketId config (tree w) = Inr ctx \<and>
    getIssue client (linear_id (frontmatter (pc_ticket ctx))) (env w) = (Inr issue, r1) \<and>
    \<not> hasKeys (buildUpdates ctx issue) \<longrightarrow>
      fst (pushSingleTicket pf ticketId client config w) = Inr () \<and>
      tree (snd (pushSingleTicket pf ticketId client config w)) = tree w \<and>
      updateCalls (snd (pushSingleTicket pf ticketId client config w)) = updateCalls w) \<and>
   (tree (snd (pushSingleTicket pf ticketId client config w)) \<noteq> tree w \<longrightarrow>
      (\<exists>ctx issue r1 u r2.
           pushLocate pf ticketId config (tree w) = Inr ctx \<and>
           getIssue client (linear_id (frontmatter (pc_ticket ctx))) (env w) = (Inr issue, r1) \<and>
           hasKeys (buildUpdates ctx issue) \<and>
           updateIssue client (issue_id issue) (buildUpdates ctx issue) r1 = (Inr u, r2)))"
  using pushSingleTicket_noop[of pf ticketId config w ctx client issue r1]
        pushSingleTicket_tree_changed[of pf ticketId client config w]
  by auto

theorem push_noop_no_local_write_witness:
  "tree (snd (pushSingleTicket testPlatform ''PAP-1'' memClient testConfig worldA)) = tree worldA \<and>
   updateCalls (snd (pushSingleTicket testPlatform ''PAP-1'' memClient testConfig worldA)) = [] \<and>
   tree (snd (pushSingleTicket testPlatform ''PAP-1'' memClient testConfig worldB)) \<noteq> tree worldB \<and>
   (\<exists>ctx issue r1 u r2.
      pushLocate testPlatform ''PAP-1'' testConfig (tree worldB) = Inr ctx \<and>
      getIssue memClient (linear_id (frontmatter (pc_ticket ctx))) (env worldB) = (Inr issue, r1) \<and>
      hasKeys (buildUpdates ctx issue) \<and>
      updateIssue memClient (issue_id issue) (buildUpdates ctx issue) r1 = (Inr u, r2))"
proof -
  have locA: "pushLocate testPlatform ''PAP-1'' testConfig (tree worldA) = Inr ctxA"
    by code_simp
  have getA: "getIssue memClient (linear_id (frontmatter (pc_ticket ctxA))) (env worldA) =
                (Inr issueA, env worldA)"
    by code_simp
  have nk: "\<not> hasKeys (buildUpdates ctxA issueA)" by code_simp
  have uc: "updateCalls worldA = []" by code_simp
  have ch: "tree (snd (pushSingleTicket testPlatform ''PAP-1'' memClient testConfig worldB)) \<noteq> tree worldB"
    by code_simp
  from push_noop_no_local_write[of testPlatform "''PAP-1''" testConfig worldA ctxA memClient issueA "env worldA"]
    locA getA nk uc
  have a: "tree (snd (pushSingleTicket testPlatform ''PAP-1'' memClient testConfig worldA)) = tree worldA \<and>
   updateCalls (snd (pushSingleTicket testPlatform ''PAP-1'' memClient testConfig worldA)) = []"
    by simp
  from push_noop_no_local_write[of testPlatform "''PAP-1''" testConfig worldB ctxA memClient issueA "env worldA"] ch
  have b: "\<exists>ctx issue r1 u r2.
      pushLocate testPlatform ''PAP-1'' testConfig (tree worldB) = Inr ctx \<and>
      getIssue memClient (linear_id (frontmatter (pc_ticket ctx))) (env worldB) = (Inr issue, r1) \<and>
      hasKeys (buildUpdates ctx issue) \<and>
      updateIssue memClient (issue_id issue) (buildUpdates ctx issue) r1 = (Inr u, r2)"
    by blast
  from a b ch show ?thesis by blast
qed

section \<open>Properties of the local tree and of pullSingleTicket\<close>

lemma find_filter_hd: "find P xs = (case filter P xs of [] \<Rightarrow> None | x # _ \<Rightarrow> Some x)"
  by (induction xs) auto

lemma ticketFilesOf_Nil [simp]: "ticketFilesOf [] ticketId = []"
  by (simp add: ticketFilesOf_def)

lemma ticketFilesOf_Cons:
  "ticketFilesOf ((d, fs) # t) ticketId =
     map (Pair d) (filter (isTicketFileOf ticketId) (map fst fs)) @ ticketFilesOf t ticketId"
  by (simp add: ticketFilesOf_def)

lemma ticketFilesOf_append:
  "ticketFilesOf (t @ t') ticketId = ticketFilesOf t ticketId @ ticketFilesOf t' ticketId"
  by (simp add: ticketFilesOf_def)

lemma findTicketFile_ticketFilesOf:
  "findTicketFile t ticketId = (case ticketFilesOf t ticketId of [] \<Rightarrow> None | p # _ \<Rightarrow> Some p)"
proof (induction t)
  case Nil
  then show ?case by simp
next
  case (Cons a t)
  obtain d fs where a: "a = (d, fs)" by (cases a)
  show ?case
    unfolding a using Cons.IH
    by (simp add: ticketFilesOf_Cons find_filter_hd split: list.splits)
qed

lemma findTicketFile_in_tree:
  "findTicketFile t ticketId = Some (d, n) \<Longrightarrow> \<exists>fs. (d, fs) \<in> set t \<and> n \<in> fst ` set fs"
proof (induction t)
  case Nil
  then show ?case by simp
next
  case (Cons a t)
  obtain d' fs' where a: "a = (d', fs')" by (cases a)
  show ?case
  proof (cases "find (isTicketFileOf ticketId) (map fst fs')")
    case None
    with Cons a show ?thesis by auto
  next
    case (Some x)
    then have "x \<in> fst ` set fs'" by (auto simp: find_Some_iff)
    with Cons.prems a Some show ?thesis by auto
  qed
qed

lemma findTicketFile_lookup:
  assumes "wellFormedTree t" "findTicketFile t ticketId = Some p"
  shows "lookupFile t p \<noteq> None"
proof -
  obtain d n where p: "p = (d, n)" by (cases p)
  from findTicketFile_in_tree[OF assms(2)[unfolded p]] obtain fs where
    m: "(d, fs) \<in> set t" and n: "n \<in> fst ` set fs" by blast
  from assms(1) m have "map_of t d = Some fs" by (simp add: wellFormedTree_def)
  moreover from n have "map_of fs n \<noteq> None" by (simp add: map_of_eq_None_iff)
  ultimately show ?thesis by (simp add: lookupFile_def p)
qed

lemma unlinkSync_removeAt:
  "lookupFile t p \<noteq> None \<Longrightarrow> unlinkSync t p = Inr (removeAt p t)"
  by (auto simp: unlinkSync_def removeAt_def split: option.splits)

lemma ticketFilesOf_removeAt:
  "ticketFilesOf (removeAt p t) ticketId = filter (\<lambda>q. q \<noteq> p) (ticketFilesOf t ticketId)"
proof (induction t)
  case Nil
  then show ?case by (simp add: removeAt_def)
next
  case (Cons a t)
  obtain d fs where a: "a = (d, fs)" by (cases a)
  have r: "removeAt p (a # t) =
             (if d = fst p then (d, removeEntry (snd p) fs) else (d, fs)) # removeAt p t"
    by (simp add: removeAt_def a)
  have f1: "map (Pair d) (filter (isTicketFileOf ticketId) (map fst (removeEntry (snd p) fs))) =
            filter (\<lambda>q. q \<noteq> (d, snd p)) (map (Pair d) (filter (isTicketFileOf ticketId) (map fst fs)))"
    by (induction fs) (auto simp: removeEntry_def)
  have f2: "d \<noteq> fst p \<Longrightarrow>
            filter (\<lambda>q. q \<noteq> p) (map (Pair d) (filter (isTicketFileOf ticketId) (map fst fs))) =
            map (Pair d) (filter (isTicketFileOf ticketId) (map fst fs))"
    by (auto simp: filter_id_conv)
  show ?case
  proof (cases "d = fst p")
    case True
    then have "p = (d, snd p)" by simp
    with Cons.IH f1 r True show ?thesis
      by (simp add: ticketFilesOf_Cons a)
  next
    case False
    with Cons.IH f2 r show ?thesis
      by (simp add: ticketFilesOf_Cons a)
  qed
qed

lemma map_of_removeAt:
  "map_of (removeAt p t) d =
     map_option (\<lambda>fs. if d = fst p then removeEntry (snd p) fs else fs) (map_of t d)"
  by (induction t) (auto simp: removeAt_def)

lemma map_of_removeEntry: "map_of (removeEntry k es) k' = (if k' = k then None else map_of es k')"
  by (induction es) (auto simp: removeEntry_def)

lemma lookupFile_removeAt:
  "lookupFile (removeAt p t) q = (if q = p then None else lookupFile t q)"
  by (cases p; cases q) (auto simp: lookupFile_def map_of_removeAt map_of_removeEntry split: option.splits)

lemma ticketFilesOf_ensureDir: "ticketFilesOf (ensureDir t d) ticketId = ticketFilesOf t ticketId"
  by (simp add: ensureDir_def ticketFilesOf_append ticketFilesOf_Cons split: option.splits)

lemma lookupFile_ensureDir: "lookupFile (ensureDir t d) q = lookupFile t q"
  by (auto simp: ensureDir_def lookupFile_def map_add_def split: option.splits)

lemma map_of_ensureDir: "map_of (ensureDir t d) d \<noteq> None"
  by (auto simp: ensureDir_def map_add_def split: option.splits)

lemma filter_putEntry_names:
  "filter P (map fst es) = [] \<Longrightarrow> filter P (map fst (putEntry n v es)) = (if P n then [n] else [])"
  by (induction es) (auto split: if_splits)

lemma ticketFilesOf_putEntry:
  "ticketFilesOf t ticketId = [] \<Longrightarrow>
     ticketFilesOf (putEntry d fs' t) ticketId =
       map (Pair d) (filter (isTicketFileOf ticketId) (map fst fs'))"
proof (induction t)
  case Nil
  then show ?case by (simp add: ticketFilesOf_Cons)
next
  case (Cons a t)
  obtain d' fs where a: "a = (d', fs)" by (cases a)
  from Cons.prems have e1: "filter (isTicketFileOf ticketId) (map fst fs) = []"
    and e2: "ticketFilesOf t ticketId = []"
    by (simp_all add: a ticketFilesOf_Cons)
  show ?case using Cons.IH[OF e2] e1 e2 by (simp add: a ticketFilesOf_Cons)
qed

lemma ticketFilesOf_empty_folder:
  "ticketFilesOf t ticketId = [] \<Longrightarrow> map_of t d = Some fs \<Longrightarrow>
     filter (isTicketFileOf ticketId) (map fst fs) = []"
proof (induction t)
  case Nil
  then show ?case by simp
next
  case (Cons a t)
  obtain d' fs' where a: "a = (d', fs')" by (cases a)
  from Cons show ?case by (auto simp: a ticketFilesOf_Cons split: if_splits)
qed

lemma ticketFilesOf_write:
  assumes "ticketFilesOf t ticketId = []" "writeFileSync t (d, n) c now = Inr t'"
  shows "ticketFilesOf t' ticketId = (if isTicketFileOf ticketId n then [(d, n)] else [])"
proof -
  from assms(2) obtain fs where m: "map_of t d = Some fs" and
    t': "t' = putEntry d (putEntry n \<lparr>file_content = c, file_mtime = now\<rparr> fs) t"
    by (auto simp: writeFileSync_def split: option.splits)
  from ticketFilesOf_empty_folder[OF assms(1) m]
  have "filter (isTicketFileOf ticketId) (map fst (putEntry n \<lparr>file_content = c, file_mtime = now\<rparr> fs)) =
          (if isTicketFileOf ticketId n then [n] else [])"
    by (rule filter_putEntry_names)
  with ticketFilesOf_putEntry[OF assms(1), of d] show ?thesis by (simp add: t')
qed

lemma lookupFile_write:
  assumes "writeFileSync t p c now = Inr t'"
  shows "lookupFile t' q = (if q = p then Some \<lparr>file_content = c, file_mtime = now\<rparr> else lookupFile t q)"
proof -
  obtain d n where p: "p = (d, n)" by (cases p)
  obtain d' n' where q: "q = (d', n')" by (cases q)
  from assms obtain fs where m: "map_of t d = Some fs" and
    t': "t' = putEntry d (putEntry n \<lparr>file_content = c, file_mtime = now\<rparr> fs) t"
    by (auto simp: writeFileSync_def p split: option.splits)
  show ?thesis
  proof (cases "d' = d")
    case True
    then show ?thesis using m by (simp add: lookupFile_def p q t' map_of_putEntry)
  next
    case False
    then show ?thesis by (simp add: lookupFile_def p q t' map_of_putEntry)
  qed
qed

lemma utcToSGT_out_of_range:
  "dateParse pf s = Some t \<Longrightarrow> \<not> validTime (t + 8 * 60 * 60 * 1000) \<Longrightarrow>
     utcToSGT pf s = Inl ''Invalid time value''"
  by (simp add: utcToSGT_def)

lemma pullWrite_move:
  assumes sf: "findStatusFolder (state_name issue) (statusMapping config) = Some statusFolder"
      and ne: "statusFolder \<noteq> []"
      and wf: "wellFormedTree (tree w)"
      and one: "ticketFilesOf (tree w) (issue_identifier issue) = [(oldFolder, oldName)]"
      and diff: "oldFolder \<noteq> statusFolder"
      and conv: "convertLinearIssueToTicket pf issue (comment_nodes issue) = Inr ticket"
      and gen: "generateFile pf ticket = Inr content"
      and np: "newPath = (statusFolder, generateFilename (issue_identifier issue) (issue_title issue)
                            (parent_identifier issue))"
  shows "\<exists>t'. pullWrite pf config issue w = (Inr (), w\<lparr>tree := t'\<rparr>) \<and>
          lookupFile t' (oldFolder, oldName) = None \<and>
          lookupFile t' newPath = Some \<lparr>file_content = content, file_mtime = currentTime pf (env w)\<rparr> \<and>
          (\<forall>p. p \<noteq> (oldFolder, oldName) \<and> p \<noteq> newPath \<longrightarrow> lookupFile t' p = lookupFile (tree w) p) \<and>
          set (ticketFilesOf t' (issue_identifier issue)) \<subseteq> {newPath} \<and>
          length (ticketFilesOf t' (issue_identifier issue)) \<le> 1"
proof -
  let ?old = "(oldFolder, oldName)"
  let ?id = "issue_identifier issue"
  let ?f = "\<lparr>file_content = content, file_mtime = currentTime pf (env w)\<rparr>"
  have found: "findTicketFile (tree w) ?id = Some ?old"
    by (simp add: findTicketFile_ticketFilesOf one)
  have neq: "?old \<noteq> newPath" using diff np by simp
  have ex: "lookupFile (tree w) ?old \<noteq> None"
    by (rule findTicketFile_lookup[OF wf found])
  define t1 where "t1 = removeAt ?old (tree w)"
  define t2 where "t2 = ensureDir t1 statusFolder"
  have un: "unlinkSync (tree w) ?old = Inr t1"
    unfolding t1_def by (rule unlinkSync_removeAt[OF ex])
  have "map_of t2 (fst newPath) \<noteq> None"
    unfolding t2_def np by (simp add: map_of_ensureDir)
  then obtain t3 where wr: "writeFileSync t2 newPath content (currentTime pf (env w)) = Inr t3"
    by (auto simp: writeFileSync_def split: option.splits)
  have run: "pullWrite pf config issue w = (Inr (), w\<lparr>tree := t3\<rparr>)"
    using sf ne conv gen found neq un wr
    by (simp add: pullWrite_def Let_def np[symmetric] t2_def[symmetric])
  have tf1: "ticketFilesOf t1 ?id = []"
    unfolding t1_def by (simp add: ticketFilesOf_removeAt one)
  have tf2: "ticketFilesOf t2 ?id = []"
    unfolding t2_def by (simp add: ticketFilesOf_ensureDir tf1)
  have tf3: "ticketFilesOf t3 ?id = (if isTicketFileOf ?id (snd newPath) then [newPath] else [])"
    using ticketFilesOf_write[OF tf2, of "fst newPath" "snd newPath"] wr by simp
  have l_old: "lookupFile t3 ?old = None"
    using lookupFile_write[OF wr, of ?old] neq
    by (simp add: t2_def lookupFile_ensureDir t1_def lookupFile_removeAt)
  have l_new: "lookupFile t3 newPath = Some ?f"
    using lookupFile_write[OF wr, of newPath] by simp
  have l_other: "\<forall>p. p \<noteq> ?old \<and> p \<noteq> newPath \<longrightarrow> lookupFile t3 p = lookupFile (tree w) p"
    using lookupFile_write[OF wr]
    by (simp add: t2_def lookupFile_ensureDir t1_def lookupFile_removeAt)
  from run l_old l_new l_other tf3 show ?thesis by auto
qed

text \<open>
  A pull of a ticket whose one local file, among those \<open>findTicketFile\<close> takes for files
  of the ticket, lies in a folder other than the folder of the current remote state:
  it removes that file and writes the freshly generated content at the new location;
  every other path of the tree is left as it was, and afterwards at most one file that
  \<open>findTicketFile\<close> takes for the ticket's is in the tree.
\<close>

lemma pullSingleTicket_moves_recognised_file:
  assumes "getIssue client ticketId (env w) = (Inr issue, r1)"
      and "findStatusFolder (state_name issue) (statusMapping config) = Some statusFolder"
      and "statusFolder \<noteq> []"
      and "wellFormedTree (tree w)"
      and "ticketFilesOf (tree w) (issue_identifier issue) = [(oldFolder, oldName)]"
      and "oldFolder \<noteq> statusFolder"
      and "convertLinearIssueToTicket pf issue (comment_nodes issue) = Inr ticket"
      and "generateFile pf ticket = Inr content"
      and "newPath = (statusFolder, generateFilename (issue_identifier issue) (issue_title issue)
                            (parent_identifier issue))"
  shows "\<exists>t'. pullSingleTicket pf ticketId client config w =
                 (Inr (), \<lparr>tree = t', env = r1, updateCalls = updateCalls w\<rparr>) \<and>
          lookupFile t' (oldFolder, oldName) = None \<and>
          lookupFile t' newPath = Some \<lparr>file_content = content, file_mtime = currentTime pf r1\<rparr> \<and>
          (\<forall>p. p \<noteq> (oldFolder, oldName) \<and> p \<noteq> newPath \<longrightarrow> lookupFile t' p = lookupFile (tree w) p) \<and>
          set (ticketFilesOf t' (issue_identifier issue)) \<subseteq> {newPath} \<and>
          length (ticketFilesOf t' (issue_identifier issue)) \<le> 1"
proof -
  let ?w1 = "w\<lparr>env := r1\<rparr>"
  have "\<exists>t'. pullWrite pf config issue ?w1 = (Inr (), ?w1\<lparr>tree := t'\<rparr>) \<and>
          lookupFile t' (oldFolder, oldName) = None \<and>
          lookupFile t' newPath = Some \<lparr>file_content = content, file_mtime = currentTime pf (env ?w1)\<rparr> \<and>
          (\<forall>p. p \<noteq> (oldFolder, oldName) \<and> p \<noteq> newPath \<longrightarrow> lookupFile t' p = lookupFile (tree ?w1) p) \<and>
          set (ticketFilesOf t' (issue_identifier issue)) \<subseteq> {newPath} \<and>
          length (ticketFilesOf t' (issue_identifier issue)) \<le> 1"
    using assms by (intro pullWrite_move) simp_all
  then obtain t' where
    "pullWrite pf config issue ?w1 = (Inr (), ?w1\<lparr>tree := t'\<rparr>)"
    "lookupFile t' (oldFolder, oldName) = None"
    "lookupFile t' newPath = Some \<lparr>file_content = content, file_mtime = currentTime pf r1\<rparr>"
    "\<forall>p. p \<noteq> (oldFolder, oldName) \<and> p \<noteq> newPath \<longrightarrow> lookupFile t' p = lookupFile (tree w) p"
    "set (ticketFilesOf t' (issue_identifier issue)) \<subseteq> {newPath}"
    "length (ticketFilesOf t' (issue_identifier issue)) \<le> 1"
    by auto
  moreover have "pullSingleTicket pf ticketId client config w = pullWrite pf config issue ?w1"
    using assms(1) by (simp add: pullSingleTicket_def)
  moreover have "?w1\<lparr>tree := t'\<rparr> = \<lparr>tree = t', env = r1, updateCalls = updateCalls w\<rparr>"
    by simp
  ultimately show ?thesis by metis
qed

text \<open>
  C2. A pull that finds the ticket's file in a folder other than the one of the current
  remote state is to move it: delete the old file, write the new one, and leave one file
  for the id. The code does so only when \<open>findTicketFile\<close> recognises the old file, and
  it does not recognise the file the code itself writes for a sub-issue whose parent is
  of another team. For \<open>PAP-447\<close> with parent \<open>ENG-9\<close>, \<open>generateFilename\<close> gives
  \<open>ENG-9.447-child-task.md\<close>, and \<open>extractLinearIdFromFilename\<close> reads that name back as
  \<open>ENG-447\<close> (the parent's team key with the child's number, where its comment promises
  the actual ticket id). So: a first pull writes the file into \<open>todo\<close>; the remote issue
  moves to Done; the next pull finds no file for \<open>PAP-447\<close>, deletes nothing, and writes
  a second file into \<open>done\<close>. Both files decode to tickets with the id \<open>PAP-447\<close>.
\<close>

theorem pull_cross_team_child_leaves_two_files:
  "generateFilename (issue_identifier issueChild) (issue_title issueChild) (parent_identifier issueChild) =
     ''ENG-9.447-child-task.md'' \<and>
   extractLinearIdFromFilename ''ENG-9.447-child-task.md'' = Some ''ENG-447'' \<and>
   pullSingleTicket testPlatform ''PAP-447'' memClient testConfig worldChild =
     (Inr (), worldChild\<lparr>tree := tree worldChildMoved\<rparr>) \<and>
   findTicketFile (tree worldChildMoved) ''PAP-447'' = None \<and>
   pullSingleTicket testPlatform ''PAP-447'' memClient testConfig worldChildMoved =
     (Inr (),
      worldChildMoved\<lparr>tree :=
        [(''todo'', [(''ENG-9.447-child-task.md'',
                      \<lparr>file_content = fileChild, file_mtime = 1704153600000\<rparr>)]),
         (''done'', [(''ENG-9.447-child-task.md'',
                      \<lparr>file_content = fileChildDone, file_mtime = 1704153700000\<rparr>)])]\<rparr>) \<and>
   parseFile testPlatform fileChild =
     Inr \<lparr>frontmatter = fmChild, ticket_content = ''Body'', comments = []\<rparr> \<and>
   parseFile testPlatform fileChildDone =
     Inr \<lparr>frontmatter = fmChild\<lparr>status := ''Done''\<rparr>, ticket_content = ''Body'', comments = []\<rparr> \<and>
   linear_id fmChild = ''PAP-447''"
  by code_simp

section \<open>Properties of pushAllTickets\<close>








section \<open>Properties of the ticket file codec\<close>

lemma splitAux_no_occurrence:
  "\<not> str_includes s sep \<Longrightarrow> splitAux sep cur s = [rev cur @ s]"
  by (induction s arbitrary: cur) auto

lemma prefix_append_short:
  "prefix p (xs @ ys) \<Longrightarrow> length p \<le> length xs \<Longrightarrow> prefix p xs"
  by (auto simp: prefix_append dest: prefix_length_le)

lemma splitAux_first_occurrence:
  assumes "sep \<noteq> []"
  shows "\<not> str_includes (a @ butlast sep) sep \<Longrightarrow>
         splitAux sep cur (a @ sep @ b) = (rev cur @ a) # splitAux sep [] b"
proof (induction a arbitrary: cur)
  case Nil
  from assms obtain c sep' where sep: "sep = c # sep'" by (cases sep) auto
  show ?case by (simp add: sep)
next
  case (Cons x a)
  have np: "\<not> prefix sep ((x # a) @ butlast sep)"
    using Cons.prems by (cases "(x # a) @ butlast sep") auto
  have len: "length sep \<le> length ((x # a) @ butlast sep)" using assms by simp
  have bl: "butlast sep @ [last sep] = sep" using assms by simp
  have split: "x # a @ sep @ b = ((x # a) @ butlast sep) @ ([last sep] @ b)"
  proof -
    have "x # a @ sep @ b = x # a @ (butlast sep @ [last sep]) @ b" by (simp only: bl)
    then show ?thesis by simp
  qed
  have np': "\<not> prefix sep (x # a @ sep @ b)"
  proof
    assume "prefix sep (x # a @ sep @ b)"
    then have "prefix sep (((x # a) @ butlast sep) @ ([last sep] @ b))" by (simp only: split)
    from prefix_append_short[OF this len] np show False by simp
  qed
  have rest: "\<not> str_includes (a @ butlast sep) sep" using Cons.prems by simp
  show ?case using np' Cons.IH[OF rest, of "x # cur"] by simp
qed

lemma codePoints_nl_left: "codePoints (CHR 0x0A # s) = nl # codePoints s"
  by (simp add: sequenceLength_def)

lemma takeWhile_take_snoc:
  assumes "\<not> P a"
  shows "takeWhile P (take n (s @ [a])) = takeWhile P (take n s)"
proof (cases "n \<le> length s")
  case True
  then show ?thesis by simp
next
  case False
  then have "take n (s @ [a]) = s @ [a]" "take n s = s" by simp_all
  moreover have "takeWhile P (s @ [a]) = takeWhile P s"
    using assms by (induction s) auto
  ultimately show ?thesis by simp
qed

lemma codePoints_nl_right: "codePoints (s @ nl) = codePoints s @ [nl]"
proof (induction s rule: codePoints.induct)
  case 1
  show ?case by (simp add: sequenceLength_def)
next
  case (2 c s)
  define k where "k = length (takeWhile isContinuation (take (sequenceLength c - 1) s))"
  have nc: "\<not> isContinuation (CHR 0x0A)" by (simp add: isContinuation_def)
  have k': "length (takeWhile isContinuation (take (sequenceLength c - 1) (s @ nl))) = k"
    unfolding k_def by (simp only: takeWhile_take_snoc[of isContinuation "CHR 0x0A", OF nc])
  have "k \<le> length (take (sequenceLength c - 1) s)"
    unfolding k_def by (rule length_takeWhile_le)
  then have le: "k \<le> length s" by simp
  have ih: "codePoints (drop k s @ nl) = codePoints (drop k s) @ [nl]"
    using "2.IH"[of k] by (simp add: k_def)
  have "codePoints ((c # s) @ nl) = (c # take k (s @ nl)) # codePoints (drop k (s @ nl))"
    using k' by (simp add: Let_def)
  also have "\<dots> = (c # take k s) # codePoints (drop k s @ nl)" using le by simp
  also have "\<dots> = ((c # take k s) # codePoints (drop k s)) @ [nl]" by (simp only: ih append_Cons)
  also have "(c # take k s) # codePoints (drop k s) = codePoints (c # s)"
    by (simp add: Let_def k_def)
  finally show ?case .
qed

lemma isSpace_nl [simp]: "isSpace nl"
  by (simp add: isSpace_def whiteSpace_def)

lemma trim_nl_left: "trim (nl @ s) = trim s"
  by (simp add: trim_def codePoints_nl_left del: codePoints.simps)

lemma trim_nl_right: "trim (s @ nl) = trim s"
proof (cases "\<forall>x \<in> set (codePoints s). isSpace x")
  case True
  then have 1: "dropWhile isSpace (codePoints s) = []" by (simp add: dropWhile_eq_Nil_conv)
  from True have "dropWhile isSpace (codePoints s @ [nl]) = dropWhile isSpace [nl]"
    by (intro dropWhile_append2) auto
  then have 2: "dropWhile isSpace (codePoints s @ [nl]) = []" by simp
  show ?thesis by (simp only: trim_def codePoints_nl_right 1 2)
next
  case False
  then obtain x where "x \<in> set (codePoints s)" "\<not> isSpace x" by blast
  then have "dropWhile isSpace (codePoints s @ [nl]) = dropWhile isSpace (codePoints s) @ [nl]"
    by (rule dropWhile_append1)
  then show ?thesis by (simp add: trim_def codePoints_nl_right)
qed

lemma trim_unicode_white_space:
  "trim ([CHR 0xEF, CHR 0xBB, CHR 0xBF] @ ''Body'' @ [CHR 0xC2, CHR 0xA0]) = ''Body'' \<and>
   trim (''caf'' @ [CHR 0xC3, CHR 0xA0]) = ''caf'' @ [CHR 0xC3, CHR 0xA0] \<and>
   generateFilename ''PAP-1'' (''a'' @ [CHR 0xC2, CHR 0xA0] @ ''b'') None = ''PAP-1-a-b.md''"
  by code_simp

lemma str_includes_Nil: "str_includes s []"
  by (cases s) auto

lemma str_includes_append: "str_includes s p \<Longrightarrow> str_includes (s @ r) p"
proof (induction s)
  case Nil
  then show ?case by (simp add: str_includes_Nil)
next
  case (Cons a s)
  from Cons.prems have "prefix p (a # s) \<or> str_includes s p" by simp
  then show ?case
  proof
    assume "prefix p (a # s)"
    then have "prefix p ((a # s) @ r)" by (rule prefix_prefix)
    then show ?thesis by simp
  next
    assume "str_includes s p"
    from Cons.IH[OF this] show ?thesis by simp
  qed
qed

lemma parse_body_no_comments:
  assumes m: "matter pf g = Inr (fm, nl @ c)"
      and nosep: "\<not> str_includes (nl @ c) (nl @ COMMENTS_SEPARATOR @ nl)"
  shows "parseFile pf g = Inr \<lparr>frontmatter = fm, ticket_content = trim c, comments = []\<rparr>"
proof -
  have "split (nl @ c) (nl @ COMMENTS_SEPARATOR @ nl) = [nl @ c]"
    unfolding split_def using splitAux_no_occurrence[OF nosep, of "[]"] by simp
  then show ?thesis using m trim_nl_left[of c] by (simp add: parseFile_def)
qed

lemma parse_body_with_comments:
  assumes m: "matter pf g = Inr (fm, nl @ c @ nl @ nl @ COMMENTS_SEPARATOR @ nl @ cy)"
      and nosep: "\<not> str_includes (nl @ c @ nl @ nl @ COMMENTS_SEPARATOR) (nl @ COMMENTS_SEPARATOR @ nl)"
      and nosep2: "\<not> str_includes cy (nl @ COMMENTS_SEPARATOR @ nl)"
      and ne: "trim cy \<noteq> []"
      and ld: "yamlLoad pf (trim cy) = Some cs"
  shows "parseFile pf g = Inr \<lparr>frontmatter = fm, ticket_content = trim c, comments = cs\<rparr>"
proof -
  let ?sep = "nl @ COMMENTS_SEPARATOR @ nl"
  have sne: "?sep \<noteq> []" by simp
  have bl: "butlast ?sep = nl @ COMMENTS_SEPARATOR" by (simp add: butlast_append)
  have eq: "(nl @ c @ nl) @ butlast ?sep = nl @ c @ nl @ nl @ COMMENTS_SEPARATOR"
    unfolding bl by simp
  have pre: "\<not> str_includes ((nl @ c @ nl) @ butlast ?sep) ?sep"
    unfolding eq by (rule nosep)
  have "splitAux ?sep [] ((nl @ c @ nl) @ ?sep @ cy) = (rev [] @ (nl @ c @ nl)) # splitAux ?sep [] cy"
    by (rule splitAux_first_occurrence[OF sne pre])
  also have "splitAux ?sep [] cy = [cy]"
    using splitAux_no_occurrence[OF nosep2, of "[]"] by simp
  finally have sp: "split (nl @ c @ nl @ nl @ COMMENTS_SEPARATOR @ nl @ cy) ?sep = [nl @ c @ nl, cy]"
    by (simp add: split_def)
  have tr: "trim (nl @ c @ nl) = trim c"
    using trim_nl_left[of "c @ nl"] trim_nl_right[of c] by simp
  have "parseFile pf g =
          Inr \<lparr>frontmatter = fm, ticket_content = trim c,
               comments = (if trim cy \<noteq> [] then
                             (case yamlLoad pf (trim cy) of Some cs \<Rightarrow> cs | None \<Rightarrow> [])
                           else [])\<rparr>"
    by (simp only: parseFile_def m sum.case prod.case sp list.case tr)
  then show ?thesis using ne ld by simp
qed

text \<open>
  C9 (amended). Round trip of the codec. For a ticket whose frontmatter the YAML and
  front-matter libraries carry through (the dump is read back as the same frontmatter,
  with the rest of the document as body), whose content does not bring in the line
  \<open>---comments---\<close> as a separator, and whose comments, when there are any, are dumped
  to a text without the separator that loads back as the same list: \<open>generateFile\<close>
  succeeds and \<open>parseFile\<close> of its result is the ticket with its content trimmed. So
  frontmatter and comments are reproduced, and the content is reproduced up to leading
  and trailing white space, which is the white space of JavaScript's \<open>trim\<close>: the ASCII
  blanks and line ends as well as U+00A0, U+FEFF, U+2028, U+2029 and the other space
  separators of Unicode.
\<close>

theorem codec_roundtrip_trimmed:
  assumes dump: "yamlDumpFrontmatter pf (frontmatter t) = Inr y"
      and law: "\<And>rest. matter pf (''---'' @ nl @ y @ ''---'' @ nl @ rest) = Inr (frontmatter t, rest)"
      and nosep: "\<not> str_includes (nl @ ticket_content t @ nl @ nl @ COMMENTS_SEPARATOR)
                    (nl @ COMMENTS_SEPARATOR @ nl)"
      and cm: "comments t \<noteq> [] \<Longrightarrow>
                 \<exists>cy. yamlDumpComments pf (comments t) = Inr cy \<and>
                      \<not> str_includes cy (nl @ COMMENTS_SEPARATOR @ nl) \<and>
                      trim cy \<noteq> [] \<and> yamlLoad pf (trim cy) = Some (comments t)"
  shows "\<exists>g. generateFile pf t = Inr g \<and>
              parseFile pf g = Inr (t\<lparr>ticket_content := trim (ticket_content t)\<rparr>)"
proof (cases "comments t = []")
  case True
  let ?g = "''---'' @ nl @ y @ ''---'' @ nl @ nl @ ticket_content t"
  have g: "generateFile pf t = Inr ?g" using dump True by (simp add: generateFile_def)
  have m: "matter pf ?g = Inr (frontmatter t, nl @ ticket_content t)"
    using law[of "nl @ ticket_content t"] by simp
  have ns: "\<not> str_includes (nl @ ticket_content t) (nl @ COMMENTS_SEPARATOR @ nl)"
  proof
    assume "str_includes (nl @ ticket_content t) (nl @ COMMENTS_SEPARATOR @ nl)"
    then have "str_includes ((nl @ ticket_content t) @ (nl @ nl @ COMMENTS_SEPARATOR))
                 (nl @ COMMENTS_SEPARATOR @ nl)"
      by (rule str_includes_append)
    with nosep show False by simp
  qed
  have "parseFile pf ?g = Inr \<lparr>frontmatter = frontmatter t, ticket_content = trim (ticket_content t),
                               comments = []\<rparr>"
    by (rule parse_body_no_comments[OF m ns])
  moreover have "t\<lparr>ticket_content := trim (ticket_content t)\<rparr> =
                 \<lparr>frontmatter = frontmatter t, ticket_content = trim (ticket_content t), comments = []\<rparr>"
    using True by (cases t) simp
  ultimately show ?thesis using g by simp
next
  case False
  from cm[OF False] obtain cy where
    dc: "yamlDumpComments pf (comments t) = Inr cy" and
    ns2: "\<not> str_includes cy (nl @ COMMENTS_SEPARATOR @ nl)" and
    ne: "trim cy \<noteq> []" and ld: "yamlLoad pf (trim cy) = Some (comments t)" by blast
  let ?g = "''---'' @ nl @ y @ ''---'' @ nl @ nl @ ticket_content t @ nl @ nl @ COMMENTS_SEPARATOR @ nl @ cy"
  have g: "generateFile pf t = Inr ?g" using dump False dc by (simp add: generateFile_def Let_def)
  have m: "matter pf ?g =
             Inr (frontmatter t, nl @ ticket_content t @ nl @ nl @ COMMENTS_SEPARATOR @ nl @ cy)"
    using law[of "nl @ ticket_content t @ nl @ nl @ COMMENTS_SEPARATOR @ nl @ cy"] by simp
  have "parseFile pf ?g = Inr \<lparr>frontmatter = frontmatter t, ticket_content = trim (ticket_content t),
                               comments = comments t\<rparr>"
    by (rule parse_body_with_comments[OF m nosep ns2 ne ld])
  moreover have "t\<lparr>ticket_content := trim (ticket_content t)\<rparr> =
                 \<lparr>frontmatter = frontmatter t, ticket_content = trim (ticket_content t),
                  comments = comments t\<rparr>"
    by (cases t) simp
  ultimately show ?thesis using g by simp
qed

theorem codec_roundtrip_trimmed_witness:
  "generateFile testPlatform commentedTicket =
     Inr (''---'' @ nl @ yamlA @ ''---'' @ nl @ nl @ ''Body'' @ nl @ nl @ ''---comments---'' @ nl @
          yamlCommentsA) \<and>
   parseFile testPlatform
     (''---'' @ nl @ yamlA @ ''---'' @ nl @ nl @ ''Body'' @ nl @ nl @ ''---comments---'' @ nl @
      yamlCommentsA) = Inr commentedTicket \<and>
   generateFile testPlatform spacedTicket =
     Inr (''---'' @ nl @ yamlA @ ''---'' @ nl @ nl @ ticket_content spacedTicket) \<and>
   parseFile testPlatform (''---'' @ nl @ yamlA @ ''---'' @ nl @ nl @ ticket_content spacedTicket) =
     Inr (spacedTicket\<lparr>ticket_content := ''Body''\<rparr>)"
proof -
  have dump': "yamlDumpFrontmatter testPlatform (frontmatter spacedTicket) = Inr yamlA"
    by code_simp
  have law': "\<And>rest. matter testPlatform (''---'' @ nl @ yamlA @ ''---'' @ nl @ rest) =
               Inr (frontmatter spacedTicket, rest)"
    by (simp add: testPlatform_def tablePlatform_def yamlA_def spacedTicket_def
          stripLeadingNewline_def)
  have nosep': "\<not> str_includes (nl @ ticket_content spacedTicket @ nl @ nl @ COMMENTS_SEPARATOR)
                    (nl @ COMMENTS_SEPARATOR @ nl)"
    by code_simp
  have nc': "comments spacedTicket = []" by code_simp
  have g': "generateFile testPlatform spacedTicket =
     Inr (''---'' @ nl @ yamlA @ ''---'' @ nl @ nl @ ticket_content spacedTicket)" by code_simp
  have tr': "trim (ticket_content spacedTicket) = ''Body''" by code_simp
  from codec_roundtrip_trimmed[of testPlatform spacedTicket yamlA, OF dump' law' nosep'] nc'
  obtain h where "generateFile testPlatform spacedTicket = Inr h"
    "parseFile testPlatform h = Inr (spacedTicket\<lparr>ticket_content := ''Body''\<rparr>)"
    unfolding tr' by blast
  with g' have sp: "parseFile testPlatform
      (''---'' @ nl @ yamlA @ ''---'' @ nl @ nl @ ticket_content spacedTicket) =
     Inr (spacedTicket\<lparr>ticket_content := ''Body''\<rparr>)" by simp
  have dump: "yamlDumpFrontmatter testPlatform (frontmatter commentedTicket) = Inr yamlA"
    by code_simp
  have law: "\<And>rest. matter testPlatform (''---'' @ nl @ yamlA @ ''---'' @ nl @ rest) =
               Inr (frontmatter commentedTicket, rest)"
    by (simp add: testPlatform_def tablePlatform_def yamlA_def commentedTicket_def
          stripLeadingNewline_def)
  have nosep: "\<not> str_includes (nl @ ticket_content commentedTicket @ nl @ nl @ COMMENTS_SEPARATOR)
                    (nl @ COMMENTS_SEPARATOR @ nl)"
    by code_simp
  have cm: "\<exists>cy. yamlDumpComments testPlatform (comments commentedTicket) = Inr cy \<and>
                      \<not> str_includes cy (nl @ COMMENTS_SEPARATOR @ nl) \<and>
                      trim cy \<noteq> [] \<and> yamlLoad testPlatform (trim cy) = Some (comments commentedTicket)"
  proof (intro exI conjI)
    show "yamlDumpComments testPlatform (comments commentedTicket) = Inr yamlCommentsA" by code_simp
    show "\<not> str_includes yamlCommentsA (nl @ COMMENTS_SEPARATOR @ nl)" by code_simp
    show "trim yamlCommentsA \<noteq> []" by code_simp
    show "yamlLoad testPlatform (trim yamlCommentsA) = Some (comments commentedTicket)" by code_simp
  qed
  have g: "generateFile testPlatform commentedTicket =
     Inr (''---'' @ nl @ yamlA @ ''---'' @ nl @ nl @ ''Body'' @ nl @ nl @ ''---comments---'' @ nl @
          yamlCommentsA)" by code_simp
  have tr: "commentedTicket\<lparr>ticket_content := trim (ticket_content commentedTicket)\<rparr> = commentedTicket"
    by code_simp
  from codec_roundtrip_trimmed[of testPlatform commentedTicket yamlA, OF dump law nosep cm]
  obtain g' where "generateFile testPlatform commentedTicket = Inr g'"
    "parseFile testPlatform g' = Inr commentedTicket"
    unfolding tr by blast
  with g g' sp show ?thesis by simp
qed

text \<open>
  C9 as stated fails: a ticket with valid frontmatter whose content ends in a newline
  comes back with the newline removed, since \<open>parseFile\<close> trims the content.
\<close>

theorem codec_roundtrip_counterexample:
  "validateFrontmatter testPlatform (frontmatter paddedTicket) = [] \<and>
   generateFile testPlatform paddedTicket = Inr (fileA @ nl) \<and>
   parseFile testPlatform (fileA @ nl) = Inr (paddedTicket\<lparr>ticket_content := ''Body''\<rparr>) \<and>
   ticket_content paddedTicket = ''Body'' @ nl \<and>
   paddedTicket\<lparr>ticket_content := ''Body''\<rparr> \<noteq> paddedTicket"
  by code_simp

text \<open>
  A content that holds the separator line is cut at it: the text after the line is
  taken for the comments section and lost from the content.
\<close>

lemma codec_separator_in_content:
  "validateFrontmatter testPlatform (frontmatter separatorTicket) = [] \<and>
   generateFile testPlatform separatorTicket =
     Inr (fileA @ nl @ ''---comments---'' @ nl @ ''More'') \<and>
   parseFile testPlatform (fileA @ nl @ ''---comments---'' @ nl @ ''More'') =
     Inr (separatorTicket\<lparr>ticket_content := ''Body''\<rparr>)"
  by code_simp

section \<open>Properties of the webhook endpoint\<close>

lemma handleTicketDeletion_succeeds:
  "\<exists>w' sl n. handleTicketDeletion cfg ticketId w = (Inr (), w', sl, n)"
  unfolding handleTicketDeletion_def withRetry_def
  by (subst retryLoop.simps)
     (simp add: finalConfig_def emptyConfig_def DEFAULT_CONFIG_def deletionOperation_def)

text \<open>
  C7 (amended). The status of \<open>POST /webhook\<close>. A notification without a ticket
  identifier, or with an action other than create, update or remove, is answered 200
  and changes nothing. A remove notification is answered 200. A create or update
  notification with an identifier is answered after the retried sync has ended: 200
  exactly when it succeeded, 500 exactly when it ended in an error; in particular a
  sync that fails with a retryable error on every attempt is tried three times and
  then answered 500.
\<close>

theorem webhook_response_status:
  "(webhookTicketId body = None \<or>
    wb_action body \<notin> {Some ''update'', Some ''create'', Some ''remove''} \<longrightarrow>
      webhookHandler pf client cfg body w = (200, w)) \<and>
   (wb_action body = Some ''remove'' \<longrightarrow> fst (webhookHandler pf client cfg body w) = 200) \<and>
   (webhookTicketId body = Some ticketId \<and>
    (wb_action body = Some ''update'' \<or> wb_action body = Some ''create'') \<longrightarrow>
      (fst (webhookHandler pf client cfg body w) = 200 \<longleftrightarrow>
         fst (syncTicket pf client cfg ticketId w) = Inr ()) \<and>
      (fst (webhookHandler pf client cfg body w) = 500 \<longleftrightarrow>
         (\<exists>e. fst (syncTicket pf client cfg ticketId w) = Inl e))) \<and>
   (webhookTicketId body = Some ticketId \<and>
    (wb_action body = Some ''update'' \<or> wb_action body = Some ''create'') \<and>
    (\<forall>s. \<exists>e s'. syncOperation pf client cfg ticketId s = (Inl e, s') \<and> isRetryableError e) \<longrightarrow>
      fst (webhookHandler pf client cfg body w) = 500 \<and>
      snd (snd (snd (syncTicket pf client cfg ticketId w))) = 3)"
proof (intro conjI impI)
  assume "webhookTicketId body = None \<or>
    wb_action body \<notin> {Some ''update'', Some ''create'', Some ''remove''}"
  then show "webhookHandler pf client cfg body w = (200, w)"
    by (auto simp: webhookHandler_def split: option.splits)
next
  assume a: "wb_action body = Some ''remove''"
  from handleTicketDeletion_succeeds obtain w' sl n where
    "handleTicketDeletion cfg (the (webhookTicketId body)) w = (Inr (), w', sl, n)" by blast
  with a show "fst (webhookHandler pf client cfg body w) = 200"
    by (auto simp: webhookHandler_def split: option.splits)
next
  assume a: "webhookTicketId body = Some ticketId \<and>
    (wb_action body = Some ''update'' \<or> wb_action body = Some ''create'')"
  obtain res w' sl n where st: "syncTicket pf client cfg ticketId w = (res, w', sl, n)"
    by (cases "syncTicket pf client cfg ticketId w") auto
  from a st show "fst (webhookHandler pf client cfg body w) = 200 \<longleftrightarrow>
         fst (syncTicket pf client cfg ticketId w) = Inr ()"
    by (cases res) (auto simp: webhookHandler_def)
  from a st show "fst (webhookHandler pf client cfg body w) = 500 \<longleftrightarrow>
         (\<exists>e. fst (syncTicket pf client cfg ticketId w) = Inl e)"
    by (cases res) (auto simp: webhookHandler_def)
next
  assume a: "webhookTicketId body = Some ticketId \<and>
    (wb_action body = Some ''update'' \<or> wb_action body = Some ''create'') \<and>
    (\<forall>s. \<exists>e s'. syncOperation pf client cfg ticketId s = (Inl e, s') \<and> isRetryableError e)"
  then have "\<And>s. \<exists>e s'. syncOperation pf client cfg ticketId s = (Inl e, s') \<and> isRetryableError e"
    by blast
  from retryLoop_exhaustion[of "syncOperation pf client cfg ticketId", OF this,
      of "finalConfig emptyConfig" 0 w "[]" 0]
  obtain t s' sl where st: "syncTicket pf client cfg ticketId w = (Inl t, s', sl, 3)"
    by (auto simp: syncTicket_def withRetry_def finalConfig_def emptyConfig_def DEFAULT_CONFIG_def)
  from a st show "fst (webhookHandler pf client cfg body w) = 500"
    by (auto simp: webhookHandler_def)
  from st show "snd (snd (snd (syncTicket pf client cfg ticketId w))) = 3" by simp
qed

theorem webhook_response_status_witness:
  "webhookHandler testPlatform memClient (Inr testConfig) pingBody worldA = (200, worldA) \<and>
   fst (webhookHandler testPlatform memClient (Inr testConfig) removeBody worldA) = 200 \<and>
   fst (syncTicket testPlatform memClient (Inr testConfig) ''PAP-1'' worldB) = Inr () \<and>
   fst (webhookHandler testPlatform memClient (Inr testConfig) updateBody worldB) = 200 \<and>
   fst (webhookHandler testPlatform (failingClient ''network error'') (Inr testConfig) updateBody worldA) = 500"
proof -
  have p: "wb_action pingBody \<notin> {Some ''update'', Some ''create'', Some ''remove''}" by code_simp
  have r: "wb_action removeBody = Some ''remove''" by code_simp
  have u: "webhookTicketId updateBody = Some ''PAP-1'' \<and>
    (wb_action updateBody = Some ''update'' \<or> wb_action updateBody = Some ''create'')" by code_simp
  have ok: "fst (syncTicket testPlatform memClient (Inr testConfig) ''PAP-1'' worldB) = Inr ()"
    by code_simp
  have re: "isRetryableError ''network error''" by code_simp
  have fl: "\<forall>s. \<exists>e s'. syncOperation testPlatform (failingClient ''network error'') (Inr testConfig)
               ''PAP-1'' s = (Inl e, s') \<and> isRetryableError e"
    using re by (simp add: syncOperation_def pullSingleTicket_def failingClient_def)
  from webhook_response_status[of pingBody testPlatform memClient "Inr testConfig" worldA] p
  have 1: "webhookHandler testPlatform memClient (Inr testConfig) pingBody worldA = (200, worldA)"
    by blast
  from webhook_response_status[of removeBody testPlatform memClient "Inr testConfig" worldA] r
  have 2: "fst (webhookHandler testPlatform memClient (Inr testConfig) removeBody worldA) = 200"
    by blast
  from webhook_response_status[of updateBody testPlatform memClient "Inr testConfig" worldB "''PAP-1''"] u ok
  have 3: "fst (webhookHandler testPlatform memClient (Inr testConfig) updateBody worldB) = 200"
    by blast
  from webhook_response_status[of updateBody testPlatform "failingClient ''network error''"
         "Inr testConfig" worldA "''PAP-1''"] u fl
  have 4: "fst (webhookHandler testPlatform (failingClient ''network error'') (Inr testConfig)
             updateBody worldA) = 500"
    by blast
  from 1 2 ok 3 4 show ?thesis by blast
qed

text \<open>
  C7 as stated fails: with a remote that answers every call with a network error, which
  is retryable and not fatal, the sync is retried internally three times and the
  failure is then surfaced as status 500.
\<close>

theorem webhook_retry_exhaustion_counterexample:
  "isRetryableError ''network error'' \<and>
   syncTicket testPlatform (failingClient ''network error'') (Inr testConfig) ''PAP-1'' worldA =
     (Inl (Error ''network error''), worldA, [Some 120000, Some 30000], 3) \<and>
   webhookHandler testPlatform (failingClient ''network error'') (Inr testConfig) updateBody worldA =
     (500, worldA)"
  by code_simp

section \<open>Properties of the debounce\<close>

lemma advance_key:
  "moveDebounceMap (advance t d) k =
     (case moveDebounceMap d k of
        None \<Rightarrow> None
      | Some timer \<Rightarrow> if fst timer \<le> t then None else Some timer)"
  "pushLog (advance t d) k =
     (case moveDebounceMap d k of
        None \<Rightarrow> pushLog d k
      | Some timer \<Rightarrow>
          if fst timer \<le> t \<and> snd timer = Added then pushLog d k @ [fst timer] else pushLog d k)"
  by (simp_all add: advance_def)

lemma handleFileMove_key:
  "debounceKey p = Some k \<Longrightarrow>
     moveDebounceMap (handleFileMove now p a d) k = Some (now + 2000, a)"
  "debounceKey p \<noteq> Some k \<Longrightarrow>
     moveDebounceMap (handleFileMove now p a d) k = moveDebounceMap d k"
  "pushLog (handleFileMove now p a d) = pushLog d"
  by (auto simp: handleFileMove_def split: option.splits)

text \<open>A key without a timer and without events is left alone.\<close>

lemma run_no_timer_no_events:
  "moveDebounceMap d k = None \<Longrightarrow> eventsOf k evs = [] \<Longrightarrow>
     moveDebounceMap (run evs d) k = None \<and> pushLog (run evs d) k = pushLog d k"
proof (induction evs arbitrary: d)
  case Nil
  then show ?case by simp
next
  case (Cons e evs)
  let ?d2 = "handleFileMove (ev_time e) (ev_path e) (ev_action e) (advance (ev_time e) d)"
  from Cons.prems(2) have nk: "debounceKey (ev_path e) \<noteq> Some k" and rest: "eventsOf k evs = []"
    by (auto simp: eventsOf_def split: if_splits)
  have "moveDebounceMap ?d2 k = None" "pushLog ?d2 k = pushLog d k"
    using nk Cons.prems(1) by (simp_all add: handleFileMove_key advance_key)
  with Cons.IH[of ?d2] rest show ?case by simp
qed

text \<open>
  A pending \<open>added\<close> timer of a key with no further events: it fires once, at its
  deadline, when an event arrives at or after the deadline; until then it stays.
\<close>

lemma run_pending_no_events:
  assumes "moveDebounceMap d k = Some (dl, Added)" and "eventsOf k evs = []"
  shows "((\<exists>e \<in> set evs. dl \<le> ev_time e) \<and>
          moveDebounceMap (run evs d) k = None \<and> pushLog (run evs d) k = pushLog d k @ [dl]) \<or>
         ((\<forall>e \<in> set evs. ev_time e < dl) \<and>
          moveDebounceMap (run evs d) k = Some (dl, Added) \<and> pushLog (run evs d) k = pushLog d k)"
  using assms
proof (induction evs arbitrary: d)
  case Nil
  then show ?case by simp
next
  case (Cons e evs)
  let ?d1 = "advance (ev_time e) d"
  let ?d2 = "handleFileMove (ev_time e) (ev_path e) (ev_action e) ?d1"
  from Cons.prems(2) have nk: "debounceKey (ev_path e) \<noteq> Some k" and rest: "eventsOf k evs = []"
    by (auto simp: eventsOf_def split: if_splits)
  have m2: "moveDebounceMap ?d2 k = moveDebounceMap ?d1 k" and l2: "pushLog ?d2 k = pushLog ?d1 k"
    using nk by (simp_all add: handleFileMove_key)
  show ?case
  proof (cases "ev_time e < dl")
    case True
    then have a: "moveDebounceMap ?d2 k = Some (dl, Added)" "pushLog ?d2 k = pushLog d k"
      using Cons.prems(1) by (simp_all add: m2 l2 advance_key)
    from Cons.IH[OF a(1) rest] a(2) True show ?thesis by auto
  next
    case False
    then have a: "moveDebounceMap ?d2 k = None" "pushLog ?d2 k = pushLog d k @ [dl]"
      using Cons.prems(1) by (simp_all add: m2 l2 advance_key)
    from run_no_timer_no_events[OF a(1) rest] a(2) False show ?thesis by auto
  qed
qed

text \<open>The state of a key before an event list: no timer, or an \<open>added\<close> timer that the
  key's first event will reset before it fires.\<close>

lemma run_burst:
  assumes "sorted (map ev_time evs)"
      and "eventsOf k evs \<noteq> []"
      and "list_all (\<lambda>e. ev_action e = Added) (eventsOf k evs)"
      and "gapsBelow 2000 (map ev_time (eventsOf k evs))"
      and "moveDebounceMap d k = None \<or>
           (\<exists>dl. moveDebounceMap d k = Some (dl, Added) \<and> ev_time (hd (eventsOf k evs)) < dl)"
  shows "((\<exists>e \<in> set evs. ev_time (last (eventsOf k evs)) + 2000 \<le> ev_time e) \<and>
          moveDebounceMap (run evs d) k = None \<and>
          pushLog (run evs d) k = pushLog d k @ [ev_time (last (eventsOf k evs)) + 2000]) \<or>
         (moveDebounceMap (run evs d) k = Some (ev_time (last (eventsOf k evs)) + 2000, Added) \<and>
          pushLog (run evs d) k = pushLog d k)"
  using assms
proof (induction evs arbitrary: d)
  case Nil
  then show ?case by (simp add: eventsOf_def)
next
  case (Cons e evs)
  let ?t = "ev_time e"
  let ?d1 = "advance ?t d"
  let ?d2 = "handleFileMove ?t (ev_path e) (ev_action e) ?d1"
  from Cons.prems(1) have srt: "sorted (map ev_time evs)" and le: "\<forall>e' \<in> set evs. ?t \<le> ev_time e'"
    by auto
  show ?case
  proof (cases "debounceKey (ev_path e) = Some k")
    case True
    then have ev: "eventsOf k (e # evs) = e # eventsOf k evs" by (simp add: eventsOf_def)
    from Cons.prems(3) ev have add: "ev_action e = Added"
      and adds: "list_all (\<lambda>e. ev_action e = Added) (eventsOf k evs)" by simp_all
    from Cons.prems(5) ev have l1: "pushLog ?d1 k = pushLog d k"
      by (auto simp: advance_key)
    have m2: "moveDebounceMap ?d2 k = Some (?t + 2000, Added)"
      using True add by (simp add: handleFileMove_key)
    have l2: "pushLog ?d2 k = pushLog d k" using l1 by (simp add: handleFileMove_key)
    show ?thesis
    proof (cases "eventsOf k evs")
      case Nil
      from run_pending_no_events[OF m2 Nil] l2 Nil
      show ?thesis by (auto simp: ev)
    next
      case (Cons e' es)
      from Cons.prems(4) ev Cons have g: "ev_time e' < ?t + 2000"
        and gs: "gapsBelow 2000 (map ev_time (eventsOf k evs))" by simp_all
      have ne: "eventsOf k evs \<noteq> []" using Cons by simp
      have pre: "moveDebounceMap ?d2 k = None \<or>
           (\<exists>dl. moveDebounceMap ?d2 k = Some (dl, Added) \<and> ev_time (hd (eventsOf k evs)) < dl)"
        using m2 g Cons by simp
      from Cons.IH[OF srt ne adds gs pre] l2 ne show ?thesis by (auto simp: ev)
    qed
  next
    case False
    then have ev: "eventsOf k (e # evs) = eventsOf k evs" by (simp add: eventsOf_def)
    from Cons.prems(2) ev have ne: "eventsOf k evs \<noteq> []" by simp
    then have "hd (eventsOf k evs) \<in> set evs"
      by (metis eventsOf_def filter_is_subset hd_in_set subsetD)
    with le have tle: "?t \<le> ev_time (hd (eventsOf k evs))" by blast
    have m2: "moveDebounceMap ?d2 k = moveDebounceMap ?d1 k" and l2: "pushLog ?d2 k = pushLog ?d1 k"
      using False by (simp_all add: handleFileMove_key)
    from Cons.prems(5) ev tle have m1: "moveDebounceMap ?d1 k = moveDebounceMap d k"
      and l1: "pushLog ?d1 k = pushLog d k"
      by (auto simp: advance_key)
    have pre: "moveDebounceMap ?d2 k = None \<or>
           (\<exists>dl. moveDebounceMap ?d2 k = Some (dl, Added) \<and> ev_time (hd (eventsOf k evs)) < dl)"
      using Cons.prems(5) ev by (simp add: m2 m1)
    from Cons.IH[OF srt ne _ _ pre] Cons.prems(3,4) ev l2 l1 show ?thesis by auto
  qed
qed


text \<open>
  C8. Debounce. Let the watcher deliver events in time order, and let the events of a
  key be a burst of \<open>added\<close> events, each less than 2000 ms after the one before, with
  no timer of the key pending at the start; events of other keys may lie in between.
  Then exactly one push of the key is made, at 2000 ms after the last event of the
  burst, and none before that time. Every event of a key sets the key's timer anew, to
  2000 ms after the event.
\<close>

theorem debounce_burst_single_push:
  assumes "sorted (map ev_time evs)"
      and "eventsOf k evs \<noteq> []"
      and "list_all (\<lambda>e. ev_action e = Added) (eventsOf k evs)"
      and "gapsBelow 2000 (map ev_time (eventsOf k evs))"
      and "moveDebounceMap d k = None"
  shows "(ev_time (last (eventsOf k evs)) + 2000 \<le> T \<longrightarrow>
            pushLog (advance T (run evs d)) k =
              pushLog d k @ [ev_time (last (eventsOf k evs)) + 2000]) \<and>
         ((\<forall>e \<in> set evs. ev_time e \<le> T') \<and> T' < ev_time (last (eventsOf k evs)) + 2000 \<longrightarrow>
            pushLog (advance T' (run evs d)) k = pushLog d k) \<and>
         (debounceKey p = Some k \<longrightarrow>
            moveDebounceMap (handleFileMove now p a d') k = Some (now + 2000, a))"
proof -
  let ?dl = "ev_time (last (eventsOf k evs)) + 2000"
  have pre: "moveDebounceMap d k = None \<or>
           (\<exists>dl. moveDebounceMap d k = Some (dl, Added) \<and> ev_time (hd (eventsOf k evs)) < dl)"
    using assms(5) by simp
  note rb = run_burst[OF assms(1-4) pre]
  have 1: "?dl \<le> T \<longrightarrow> pushLog (advance T (run evs d)) k = pushLog d k @ [?dl]"
    using rb by (auto simp: advance_key)
  have 2: "(\<forall>e \<in> set evs. ev_time e \<le> T') \<and> T' < ?dl \<longrightarrow>
            pushLog (advance T' (run evs d)) k = pushLog d k"
    using rb by (fastforce simp: advance_key)
  have 3: "debounceKey p = Some k \<longrightarrow>
            moveDebounceMap (handleFileMove now p a d') k = Some (now + 2000, a)"
    by (simp add: handleFileMove_key)
  from 1 2 3 show ?thesis by blast
qed

theorem debounce_burst_single_push_witness:
  "eventsOf ''PAP-1'' burstEvents \<noteq> [] \<and>
   ev_time (last (eventsOf ''PAP-1'' burstEvents)) = 3900 \<and>
   length (eventsOf ''PAP-1'' burstEvents) = 5 \<and>
   pushLog (advance 5900 (run burstEvents idle)) ''PAP-1'' = [5900] \<and>
   pushLog (advance 5899 (run burstEvents idle)) ''PAP-1'' = [] \<and>
   moveDebounceMap (handleFileMove 3900 ''linear-tickets/todo/PAP-1-fix-login.md'' Added
     (run burstEvents idle)) ''PAP-1'' = Some (5900, Added)"
proof -
  have h1: "sorted (map ev_time burstEvents)" by code_simp
  have h2: "eventsOf ''PAP-1'' burstEvents \<noteq> []" by code_simp
  have h3: "list_all (\<lambda>e. ev_action e = Added) (eventsOf ''PAP-1'' burstEvents)" by code_simp
  have h4: "gapsBelow 2000 (map ev_time (eventsOf ''PAP-1'' burstEvents))" by code_simp
  have h5: "moveDebounceMap idle ''PAP-1'' = None" by (simp add: idle_def)
  have l: "ev_time (last (eventsOf ''PAP-1'' burstEvents)) = 3900" by code_simp
  have n: "length (eventsOf ''PAP-1'' burstEvents) = 5" by code_simp
  have b: "\<forall>e \<in> set burstEvents. ev_time e \<le> 5899" by code_simp
  have k: "debounceKey ''linear-tickets/todo/PAP-1-fix-login.md'' = Some ''PAP-1''" by code_simp
  have lg: "pushLog idle ''PAP-1'' = []" by (simp add: idle_def)
  note T = debounce_burst_single_push[OF h1 h2 h3 h4 h5, of 5900 5899
      "''linear-tickets/todo/PAP-1-fix-login.md''" 3900 Added "run burstEvents idle"]
  from T l lg have 1: "pushLog (advance 5900 (run burstEvents idle)) ''PAP-1'' = [5900]" by simp
  from T l lg b have 2: "pushLog (advance 5899 (run burstEvents idle)) ''PAP-1'' = []" by simp
  from T k have 3: "moveDebounceMap (handleFileMove 3900 ''linear-tickets/todo/PAP-1-fix-login.md'' Added
     (run burstEvents idle)) ''PAP-1'' = Some (5900, Added)" by simp
  from h2 l n 1 2 3 show ?thesis by blast
qed

section \<open>Properties of operations in flight\<close>

lemma runAlone_pull:
  "runAlone pf client config 1 (PullPending ticketId) w =
     (Finished (fst (pullSingleTicket pf ticketId client config w)),
      snd (pullSingleTicket pf ticketId client config w))"
  by (simp add: numeral_eq_Suc)

lemma runAlone_push:
  "runAlone pf client config 3 (PushPending ticketId) w =
     (Finished (fst (pushSingleTicket pf ticketId client config w)),
      snd (pushSingleTicket pf ticketId client config w))"
  by (simp add: numeral_eq_Suc pushSingleTicket_def Let_def
        split: sum.splits prod.splits)

lemma taskStep_enabled:
  "\<not> isFinished t \<Longrightarrow> \<exists>t' w'. taskStep pf client config t w = Some (t', w')"
  by (cases t) (auto simp: isFinished_def split: sum.splits prod.splits)

text \<open>
  C1 (amended). The daemon does not serialise the operations of one ticket. Whatever
  else is in flight, for the same ticket or another, an operation that has not finished
  can be resumed, and resuming it moves no other operation. What cannot be interrupted
  is the stretch between two suspension points: a pull run on its own is
  \<open>pullSingleTicket\<close> and is one such stretch (its deletion of the old file and its write
  of the new one happen together), a push run on its own is \<open>pushSingleTicket\<close> and has
  up to three (read, compare, write), between which other operations may run.
\<close>

theorem operations_not_serialised:
  "(i < length ts \<and> \<not> isFinished (ts ! i) \<longrightarrow>
      (\<exists>t' w'. taskStep pf client config (ts ! i) w = Some (t', w') \<and>
               poolStep pf client config i (w, ts) = Some (w', ts[i := t']))) \<and>
   runAlone pf client config 1 (PullPending ticketId) w =
     (Finished (fst (pullSingleTicket pf ticketId client config w)),
      snd (pullSingleTicket pf ticketId client config w)) \<and>
   runAlone pf client config 3 (PushPending ticketId) w =
     (Finished (fst (pushSingleTicket pf ticketId client config w)),
      snd (pushSingleTicket pf ticketId client config w))"
proof (intro conjI impI)
  assume a: "i < length ts \<and> \<not> isFinished (ts ! i)"
  then obtain t' w' where st: "taskStep pf client config (ts ! i) w = Some (t', w')"
    using taskStep_enabled by blast
  with a have "poolStep pf client config i (w, ts) = Some (w', ts[i := t'])"
    by (simp add: poolStep_def)
  with st show "\<exists>t' w'. taskStep pf client config (ts ! i) w = Some (t', w') \<and>
               poolStep pf client config i (w, ts) = Some (w', ts[i := t'])" by blast
next
  show "runAlone pf client config 1 (PullPending ticketId) w =
     (Finished (fst (pullSingleTicket pf ticketId client config w)),
      snd (pullSingleTicket pf ticketId client config w))" by (rule runAlone_pull)
next
  show "runAlone pf client config 3 (PushPending ticketId) w =
     (Finished (fst (pushSingleTicket pf ticketId client config w)),
      snd (pushSingleTicket pf ticketId client config w))" by (rule runAlone_push)
qed

theorem operations_not_serialised_witness:
  "\<not> isFinished (PushAwaitIssue ctxA) \<and>
   \<not> isFinished (PullPending ''PAP-1'') \<and>
   (\<exists>t' w'. taskStep testPlatform memClient testConfig (PullPending ''PAP-1'') worldB = Some (t', w') \<and>
      poolStep testPlatform memClient testConfig 1 (worldB, [PushAwaitIssue ctxA, PullPending ''PAP-1'']) =
        Some (w', [PushAwaitIssue ctxA, t']))"
proof -
  have a: "(1::nat) < length [PushAwaitIssue ctxA, PullPending ''PAP-1''] \<and>
           \<not> isFinished ([PushAwaitIssue ctxA, PullPending ''PAP-1''] ! 1)"
    by (simp add: isFinished_def)
  have b: "\<not> isFinished (PushAwaitIssue ctxA)" "\<not> isFinished (PullPending ''PAP-1'')"
    by (simp_all add: isFinished_def)
  from operations_not_serialised[of 1 "[PushAwaitIssue ctxA, PullPending ''PAP-1'']"
         testPlatform memClient testConfig worldB] a
  have "\<exists>t' w'. taskStep testPlatform memClient testConfig
                   ([PushAwaitIssue ctxA, PullPending ''PAP-1''] ! 1) worldB = Some (t', w') \<and>
      poolStep testPlatform memClient testConfig 1 (worldB, [PushAwaitIssue ctxA, PullPending ''PAP-1'']) =
        Some (w', [PushAwaitIssue ctxA, PullPending ''PAP-1''][1 := t'])"
    by blast
  then have "\<exists>t' w'. taskStep testPlatform memClient testConfig (PullPending ''PAP-1'') worldB = Some (t', w') \<and>
      poolStep testPlatform memClient testConfig 1 (worldB, [PushAwaitIssue ctxA, PullPending ''PAP-1'']) =
        Some (w', [PushAwaitIssue ctxA, t'])"
    by simp
  with b show ?thesis by blast
qed

text \<open>
  C1 as stated fails: a push for a ticket has read its file and is suspended; a pull for
  the same ticket is not held back, runs to its end and moves the file; the push is
  then resumed and writes the file at the path it had read. Both operations finish and
  the tree holds two files of the ticket.
\<close>

theorem pull_interleaves_with_push_counterexample:
  "map_option snd (runSchedule testPlatform memClient testConfig [0] racePool) =
     Some [PushAwaitIssue ctxA, PullPending ''PAP-1''] \<and>
   map_option snd (runSchedule testPlatform memClient testConfig [0, 1] racePool) =
     Some [PushAwaitIssue ctxA, Finished (Inr ())] \<and>
   map_option (\<lambda>s. ticketFilesOf (tree (fst s)) ''PAP-1'')
       (runSchedule testPlatform memClient testConfig [0, 1] racePool) =
     Some [(''done'', ''PAP-1-fix-login.md'')] \<and>
   map_option snd (runSchedule testPlatform memClient testConfig [0, 1, 0, 0] racePool) =
     Some [Finished (Inr ()), Finished (Inr ())] \<and>
   map_option (\<lambda>s. ticketFilesOf (tree (fst s)) ''PAP-1'')
       (runSchedule testPlatform memClient testConfig [0, 1, 0, 0] racePool) =
     Some [(''todo'', ''PAP-1-fix-login.md''), (''done'', ''PAP-1-fix-login.md'')]"
  by code_simp

end
